theory Spec2Isabelle
  imports Main "HOL-Library.AList" "HOL-Library.Sublist"
begin

section \<open>Values of the generated content\<close>

text \<open>
  The generator (\<^verbatim>\<open>generators/mga_subsidios_generator.py\<close>) asks a language model for
  JSON text five times, parses each answer, merges the five results and hands the merged
  dictionary to the builder (\<^verbatim>\<open>generators/mga_subsidios_builder.py\<close>), which walks it
  and writes a Word document. What the builder reads from the generated content is
  therefore a value that \<^verbatim>\<open>json.loads\<close> can produce; the form data of the user are
  values of the same kind. A Python \<^verbatim>\<open>dict\<close> keeps its keys in insertion order and
  has no duplicate key: it is an association list, read with \<open>map_of\<close> and written with
  \<open>AList.update\<close> (which replaces the value of a present key in place and appends a new
  key at the end, as \<^verbatim>\<open>d[k] = v\<close> does). The numbers of the model are the integers
  (a number with a fraction is outside it); a Python \<^verbatim>\<open>str\<close> is a \<open>string\<close> whose
  characters are the code points below 256.
\<close>

datatype json =
    JNull
  | JBool bool
  | JInt int
  | JStr string
  | JArr "json list"
  | JObj "(string \<times> json) list"

type_synonym dict = "(string \<times> json) list"

text \<open>The exceptions that the modelled code can raise or meet. \<^verbatim>\<open>JSONDecodeError\<close>
  is a subclass of \<^verbatim>\<open>ValueError\<close>; an \<^verbatim>\<open>except json.JSONDecodeError\<close> catches the
  first and not the second.\<close>

datatype error =
    TypeError | AttributeError | KeyError | IndexError
  | JSONDecodeError | ValueError | RecursionError

text \<open>An exception ends the function that raises it and every caller that does not
  catch it: the first \<open>Inl\<close> is the result.\<close>

definition ebind :: "error + 'a \<Rightarrow> ('a \<Rightarrow> error + 'b) \<Rightarrow> error + 'b" where
  "ebind m f = (case m of Inl e \<Rightarrow> Inl e | Inr x \<Rightarrow> f x)"

fun emap :: "('a \<Rightarrow> error + 'b) \<Rightarrow> 'a list \<Rightarrow> error + 'b list" where
  "emap f [] = Inr []"
| "emap f (x # xs) =
     (case f x of
        Inl e \<Rightarrow> Inl e
      | Inr y \<Rightarrow> (case emap f xs of Inl e \<Rightarrow> Inl e | Inr ys \<Rightarrow> Inr (y # ys)))"

text \<open>\<^verbatim>\<open>bool(v)\<close>, as \<^verbatim>\<open>if v\<close>, \<^verbatim>\<open>not v\<close> and \<^verbatim>\<open>a or b\<close> use it.\<close>

fun truthy :: "json \<Rightarrow> bool" where
  "truthy JNull = False"
| "truthy (JBool b) = b"
| "truthy (JInt i) = (i \<noteq> 0)"
| "truthy (JStr s) = (s \<noteq> [])"
| "truthy (JArr xs) = (xs \<noteq> [])"
| "truthy (JObj d) = (d \<noteq> [])"

text \<open>\<^verbatim>\<open>a or b\<close>\<close>

definition py_or :: "json \<Rightarrow> json \<Rightarrow> json" where
  "py_or a b = (if truthy a then a else b)"

text \<open>\<^verbatim>\<open>d.get(k)\<close> and \<^verbatim>\<open>d.get(k, default)\<close> on a dict.\<close>

definition dget :: "dict \<Rightarrow> string \<Rightarrow> json \<Rightarrow> json" where
  "dget d k dflt = (case map_of d k of Some v \<Rightarrow> v | None \<Rightarrow> dflt)"

text \<open>
  \<^verbatim>\<open>v.get(k, default)\<close> on any value: only a dict has the method, every other JSON
  value raises \<^verbatim>\<open>AttributeError\<close>.
\<close>

fun jget :: "json \<Rightarrow> string \<Rightarrow> json \<Rightarrow> error + json" where
  "jget (JObj d) k dflt = Inr (dget d k dflt)"
| "jget _ k dflt = Inl AttributeError"

text \<open>
  \<^verbatim>\<open>for x in v\<close>: a list yields its elements, a dict its keys, a string its characters;
  \<^verbatim>\<open>None\<close>, a bool and a number are not iterable.
\<close>

fun py_iter :: "json \<Rightarrow> error + json list" where
  "py_iter (JArr xs) = Inr xs"
| "py_iter (JObj d) = Inr (map (\<lambda>kv. JStr (fst kv)) d)"
| "py_iter (JStr s) = Inr (map (\<lambda>c. JStr [c]) s)"
| "py_iter _ = Inl TypeError"

text \<open>\<^verbatim>\<open>len(v)\<close> and \<^verbatim>\<open>v[i]\<close> for an index \<open>i \<ge> 0\<close>. The keys of a dict of the content
  are strings, so an integer index is a missing key.\<close>

fun py_len :: "json \<Rightarrow> error + nat" where
  "py_len (JArr xs) = Inr (length xs)"
| "py_len (JObj d) = Inr (length d)"
| "py_len (JStr s) = Inr (length s)"
| "py_len _ = Inl TypeError"

fun py_index :: "json \<Rightarrow> nat \<Rightarrow> error + json" where
  "py_index (JArr xs) i = (if i < length xs then Inr (xs ! i) else Inl IndexError)"
| "py_index (JStr s) i = (if i < length s then Inr (JStr [s ! i]) else Inl IndexError)"
| "py_index (JObj d) i = Inl KeyError"
| "py_index _ i = Inl TypeError"

definition newline :: string where
  "newline = [CHR 0x0A]"

section \<open>Extracting JSON from a model response\<close>

subsection \<open>The three regular expressions\<close>

text \<open>
  \<^verbatim>\<open>_extract_json\<close> uses three patterns, each a sequence of literals and starred
  character classes. \<^verbatim>\<open>re.search\<close> is a backtracking matcher: it tries the start
  positions from left to right; a greedy star takes one more character before it tries
  the rest of the pattern, a lazy star tries the rest of the pattern first. \<open>rmatch\<close>
  returns the text matched (group 0) and the text of the capturing star (group 1).
\<close>

datatype cls = Space | Any

datatype item = Exact string | Star bool bool cls
  \<comment> \<open>\<open>Star greedy capturing class\<close>\<close>

text \<open>\<^verbatim>\<open>\s\<close> on a \<^verbatim>\<open>str\<close> pattern: the code points below 256 that Python counts as
  whitespace.\<close>

definition is_space :: "char \<Rightarrow> bool" where
  "is_space c = (let n = (of_char c :: nat) in
     (9 \<le> n \<and> n \<le> 13) \<or> (28 \<le> n \<and> n \<le> 32) \<or> n = 133 \<or> n = 160)"

fun in_cls :: "cls \<Rightarrow> char \<Rightarrow> bool" where
  "in_cls Space c = is_space c"
| "in_cls Any c = True"

fun rmatch :: "item list \<Rightarrow> string \<Rightarrow> (string \<times> string) option" where
  "rmatch [] s = Some ([], [])"
| "rmatch (Exact l # r) s =
     (if prefix l s
      then map_option (\<lambda>(w, g). (l @ w, g)) (rmatch r (drop (length l) s))
      else None)"
| "rmatch (Star greedy cap cl # r) [] = rmatch r []"
| "rmatch (Star greedy cap cl # r) (c # cs) =
     (if greedy
      then (case (if in_cls cl c then rmatch (Star greedy cap cl # r) cs else None) of
              Some (w, g) \<Rightarrow> Some (c # w, if cap then c # g else g)
            | None \<Rightarrow> rmatch r (c # cs))
      else (case rmatch r (c # cs) of
              Some m \<Rightarrow> Some m
            | None \<Rightarrow>
                (if in_cls cl c
                 then map_option (\<lambda>(w, g). (c # w, if cap then c # g else g))
                        (rmatch (Star greedy cap cl # r) cs)
                 else None)))"

fun re_search :: "item list \<Rightarrow> string \<Rightarrow> (string \<times> string) option" where
  "re_search p [] = rmatch p []"
| "re_search p (c # cs) =
     (case rmatch p (c # cs) of Some m \<Rightarrow> Some m | None \<Rightarrow> re_search p cs)"

definition fence :: string where
  "fence = [CHR 0x60, CHR 0x60, CHR 0x60]"

text \<open>\<^verbatim>\<open>r'```json\s*([\s\S]*?)\s*```'\<close>, \<^verbatim>\<open>r'```\s*([\s\S]*?)\s*```'\<close> and
  \<^verbatim>\<open>r'\{[\s\S]*\}'\<close>.\<close>

definition pat_json_fence :: "item list" where
  "pat_json_fence =
     [Exact (fence @ ''json''), Star True False Space, Star False True Any,
      Star True False Space, Exact fence]"

definition pat_fence :: "item list" where
  "pat_fence =
     [Exact fence, Star True False Space, Star False True Any,
      Star True False Space, Exact fence]"

definition pat_brace :: "item list" where
  "pat_brace = [Exact ''{'', Star True False Any, Exact ''}'']"

definition json_patterns :: "item list list" where
  "json_patterns = [pat_json_fence, pat_fence, pat_brace]"

text \<open>\<^verbatim>\<open>'```' in pattern\<close>: whether the pattern's text contains the fence.\<close>

fun contains :: "string \<Rightarrow> string \<Rightarrow> bool" where
  "contains sub [] = (sub = [])"
| "contains sub (c # cs) = (prefix sub (c # cs) \<or> contains sub cs)"

fun fence_in :: "item list \<Rightarrow> bool" where
  "fence_in [] = False"
| "fence_in (Exact l # r) = (contains fence l \<or> fence_in r)"
| "fence_in (Star _ _ _ # r) = fence_in r"

subsection \<open>\<^verbatim>\<open>_extract_json\<close>\<close>

text \<open>
  \<^verbatim>\<open>json.loads\<close> belongs to Python's library: it is the parameter \<open>loads\<close>, which
  returns the parsed value or the exception that \<^verbatim>\<open>json.loads\<close> raises on the text
  (\<^verbatim>\<open>JSONDecodeError\<close> on a text that is not JSON; on some texts another exception,
  such as \<^verbatim>\<open>RecursionError\<close> on deep nesting). The first call catches
  \<^verbatim>\<open>JSONDecodeError\<close> only; the calls in the loop catch \<^verbatim>\<open>JSONDecodeError\<close> and
  \<^verbatim>\<open>IndexError\<close>; every other exception leaves \<^verbatim>\<open>_extract_json\<close>. The \<^verbatim>\<open>for\<close>
  loop over the patterns is \<open>try_patterns\<close>; falling out of the loop returns the
  empty dict.
\<close>

type_synonym json_loads = "string \<Rightarrow> error + json"

fun try_patterns :: "json_loads \<Rightarrow> item list list \<Rightarrow> string \<Rightarrow> error + json" where
  "try_patterns loads [] response = Inr (JObj [])"
| "try_patterns loads (pattern # ps) response =
     (case re_search pattern response of
        None \<Rightarrow> try_patterns loads ps response
      | Some (g0, g1) \<Rightarrow>
          (case loads (if fence_in pattern then g1 else g0) of
             Inr v \<Rightarrow> Inr v
           | Inl e \<Rightarrow>
               (if e = JSONDecodeError \<or> e = IndexError
                then try_patterns loads ps response
                else Inl e)))"

definition extract_json :: "json_loads \<Rightarrow> string \<Rightarrow> error + json" where
  "extract_json loads response =
     (case loads response of
        Inr v \<Rightarrow> Inr v
      | Inl e \<Rightarrow>
          (if e = JSONDecodeError
           then try_patterns loads json_patterns response
           else Inl e))"

subsection \<open>The four attempts, stated on the text\<close>

text \<open>
  What \<^verbatim>\<open>_extract_json\<close> does, without regular expressions: parse the whole text;
  else the first fenced block labelled \<^verbatim>\<open>json\<close>; else the first fenced block; else
  the span between the outermost braces; the first attempt that parses is the result. A
  fenced block starts after the first opening fence (with its label), runs to the next
  fence, and is taken without the white space around it. The span of the last attempt
  runs from the first opening brace of the text to the last closing brace after it,
  which is what the greedy pattern \<^verbatim>\<open>\{[\s\S]*\}\<close> matches.
\<close>

fun split_at :: "string \<Rightarrow> string \<Rightarrow> (string \<times> string) option" where
  "split_at sub [] = (if sub = [] then Some ([], []) else None)"
| "split_at sub (c # cs) =
     (if prefix sub (c # cs) then Some ([], drop (length sub) (c # cs))
      else map_option (\<lambda>(before, after). (c # before, after)) (split_at sub cs))"

definition rstrip :: "string \<Rightarrow> string" where
  "rstrip s = rev (dropWhile is_space (rev s))"

definition block_body :: "string \<Rightarrow> string option" where
  "block_body rest =
     (case split_at fence (dropWhile is_space rest) of
        None \<Rightarrow> None
      | Some (body, _) \<Rightarrow> Some (rstrip body))"

definition fenced_block :: "string \<Rightarrow> string \<Rightarrow> string option" where
  "fenced_block label s =
     (case split_at (fence @ label) s of
        None \<Rightarrow> None
      | Some (_, rest) \<Rightarrow> block_body rest)"

definition upto_last :: "char \<Rightarrow> string \<Rightarrow> string" where
  "upto_last c s = rev (dropWhile (\<lambda>x. x \<noteq> c) (rev s))"

definition outer_brace_span :: "string \<Rightarrow> string option" where
  "outer_brace_span s =
     (case dropWhile (\<lambda>x. x \<noteq> CHR ''{'') s of
        [] \<Rightarrow> None
      | b # t \<Rightarrow> (if CHR ''}'' \<in> set t then Some (b # upto_last CHR ''}'' t) else None))"

text \<open>
  The outcome of an attempt: a parsed value; a failure, which lets the next attempt run
  (the text has no such span, or \<^verbatim>\<open>json.loads\<close> raised an exception that the attempt
  catches); or an exception that the attempt does not catch.
\<close>

datatype outcome = Parsed json | Failed | Raised error

definition attempt :: "error list \<Rightarrow> json_loads \<Rightarrow> string option \<Rightarrow> outcome" where
  "attempt caught loads span =
     (case span of
        None \<Rightarrow> Failed
      | Some t \<Rightarrow>
          (case loads t of
             Inr v \<Rightarrow> Parsed v
           | Inl e \<Rightarrow> (if e \<in> set caught then Failed else Raised e)))"

definition repair_attempts :: "json_loads \<Rightarrow> string \<Rightarrow> outcome list" where
  "repair_attempts loads s =
     [attempt [JSONDecodeError] loads (Some s),
      attempt [JSONDecodeError, IndexError] loads (fenced_block ''json'' s),
      attempt [JSONDecodeError, IndexError] loads (fenced_block [] s),
      attempt [JSONDecodeError, IndexError] loads (outer_brace_span s)]"

fun first_outcome :: "outcome list \<Rightarrow> outcome" where
  "first_outcome [] = Failed"
| "first_outcome (Failed # rest) = first_outcome rest"
| "first_outcome (a # _) = a"

definition repair_spec :: "json_loads \<Rightarrow> string \<Rightarrow> error + json" where
  "repair_spec loads s =
     (case first_outcome (repair_attempts loads s) of
        Parsed v \<Rightarrow> Inr v
      | Failed \<Rightarrow> Inr (JObj [])
      | Raised e \<Rightarrow> Inl e)"



text \<open>Two tails of the fence patterns, named for the proofs: the lazy capturing star
  with what follows it, and the same after the leading \<^verbatim>\<open>\s*\<close>.\<close>

definition lazy_pat :: "item list" where
  "lazy_pat = [Star False True Any, Star True False Space, Exact fence]"

definition fence_body_pat :: "item list" where
  "fence_body_pat = Star True False Space # lazy_pat"

section \<open>Merging the five stage results\<close>

text \<open>
  \<^verbatim>\<open>generate_complete\<close> parses the five responses and merges them with
  \<^verbatim>\<open>{**ai_content_1_5, **ai_content_6_11, **ai_content_12_16, **ai_content_17_21,
  **ai_content_22_24}\<close>. The display starts from an empty dict and stores the items of
  each operand in turn; an operand that is not a mapping raises \<^verbatim>\<open>TypeError\<close>.
\<close>

definition py_update :: "dict \<Rightarrow> dict \<Rightarrow> dict" where
  "py_update d e = fold (\<lambda>(k, v). AList.update k v) e d"

fun unpack_into :: "dict \<Rightarrow> json \<Rightarrow> error + dict" where
  "unpack_into d (JObj e) = Inr (py_update d e)"
| "unpack_into d _ = Inl TypeError"

fun merge_content :: "dict \<Rightarrow> json list \<Rightarrow> error + dict" where
  "merge_content acc [] = Inr acc"
| "merge_content acc (x # xs) =
     (case unpack_into acc x of Inl e \<Rightarrow> Inl e | Inr acc' \<Rightarrow> merge_content acc' xs)"

definition generate_ai_content ::
  "json_loads \<Rightarrow> string \<Rightarrow> string \<Rightarrow> string \<Rightarrow> string \<Rightarrow> string \<Rightarrow> error + dict" where
  "generate_ai_content loads response_1_5 response_6_11 response_12_16 response_17_21 response_22_24 =
     ebind (extract_json loads response_1_5) (\<lambda>ai_content_1_5.
     ebind (extract_json loads response_6_11) (\<lambda>ai_content_6_11.
     ebind (extract_json loads response_12_16) (\<lambda>ai_content_12_16.
     ebind (extract_json loads response_17_21) (\<lambda>ai_content_17_21.
     ebind (extract_json loads response_22_24) (\<lambda>ai_content_22_24.
       merge_content []
         [ai_content_1_5, ai_content_6_11, ai_content_12_16, ai_content_17_21,
          ai_content_22_24])))))"

section \<open>The document\<close>

text \<open>
  The builder appends paragraphs and tables to a python-docx document. The model keeps
  what is appended, in order, and leaves out fonts, colours, shading and margins, which
  no later step reads. A text is a list of fragments: a literal of the source, a value
  interpolated by an f-string or \<^verbatim>\<open>str()\<close>, or a value handed to the library as it
  is (\<^verbatim>\<open>cell.text = v\<close>, \<^verbatim>\<open>p.add_run(v)\<close>).
\<close>

datatype frag = Lit string | Fmt json | Raw json

type_synonym ptext = "frag list"

datatype mark = Restart | Continue

datatype vmerge = VMerge (vcol: nat) (vrow: nat) (vmark: mark)
  \<comment> \<open>a \<^verbatim>\<open>w:vMerge\<close> element appended to the cell at a column and table row\<close>

datatype elem =
    Letterhead ptext
  | Header string string
  | SectionTitle string
  | SubsectionTitle ptext
  | LabelField string ptext
  | InlineField string ptext
  | Paragraph ptext
  | Table "ptext list list" "vmerge list"
  | PageBreak

subsection \<open>Handing a text to the library\<close>

text \<open>
  python-docx is not part of the repository. It writes a string of printable characters;
  a value that is not a string (\<^verbatim>\<open>None\<close>, a number, a list) or a string with
  control characters it may refuse with an exception, which leaves the builder. What the
  library does with such a text is a parameter: \<open>run_error\<close> for \<^verbatim>\<open>p.add_run(v)\<close>
  and \<open>text_error\<close> for \<^verbatim>\<open>cell.text = v\<close>, each giving the exception raised, if any.

  A text is plain when the library is known to write it: its fragments are literals of
  the source, formatted values (\<^verbatim>\<open>str()\<close> of a value that is not a string has
  printable characters only, for \<^verbatim>\<open>repr\<close> escapes the others), and strings of
  printable characters. The printable characters are the line feed, the code points 32
  to 126 and those from 160 on.
\<close>

definition printable :: "char \<Rightarrow> bool" where
  "printable c = (let n = (of_char c :: nat) in n = 10 \<or> (32 \<le> n \<and> n \<le> 126) \<or> 160 \<le> n)"

fun plain_value :: "json \<Rightarrow> bool" where
  "plain_value (JStr s) = list_all printable s"
| "plain_value _ = True"

fun is_str :: "json \<Rightarrow> bool" where
  "is_str (JStr s) = True"
| "is_str _ = False"

fun plain_frag :: "frag \<Rightarrow> bool" where
  "plain_frag (Lit l) = True"
| "plain_frag (Fmt v) = plain_value v"
| "plain_frag (Raw v) = (is_str v \<and> plain_value v)"

definition plain :: "ptext \<Rightarrow> bool" where
  "plain t = list_all plain_frag t"

record docx =
  run_error :: "ptext \<Rightarrow> error option"
  text_error :: "ptext \<Rightarrow> error option"

text \<open>\<^verbatim>\<open>p.add_run(t)\<close> and \<^verbatim>\<open>cell.text = t\<close>: the text written, or the exception.\<close>

definition add_run :: "docx \<Rightarrow> ptext \<Rightarrow> error + ptext" where
  "add_run D t =
     (if plain t then Inr t
      else (case run_error D t of None \<Rightarrow> Inr t | Some e \<Rightarrow> Inl e))"

definition cell_text :: "docx \<Rightarrow> ptext \<Rightarrow> error + ptext" where
  "cell_text D t =
     (if plain t then Inr t
      else (case text_error D t of None \<Rightarrow> Inr t | Some e \<Rightarrow> Inl e))"


text \<open>Letters outside ASCII that the literals of the source use.\<close>

definition a_acute :: char where "a_acute = CHR 0xE1"
definition e_acute :: char where "e_acute = CHR 0xE9"
definition i_acute :: char where "i_acute = CHR 0xED"
definition o_acute :: char where "o_acute = CHR 0xF3"

section \<open>Page 1: basic data\<close>

text \<open>
  \<^verbatim>\<open>build(data, ai_content)\<close> takes the page-1 record of the generated content and
  fills it from the form data \<^verbatim>\<open>data\<close>:
  \<^verbatim>\<open>
  page1_content = ai_content.get("pagina_1_datos_basicos", {})
  page1_content["nombre"] = page1_content.get("nombre") or data.get("nombre_proyecto") or ""
  page1_content["nombre_proyecto"] = data.get("nombre_proyecto") or ""
  page1_content["codigo_bpin"] = page1_content.get("codigo_bpin") or data.get("bpin") or ""
  page1_content["identificador"] = page1_content.get("identificador") or data.get("identificador") or ""
  page1_content["formulador_ciudadano"] = page1_content.get("formulador_ciudadano") or data.get("responsable") or ""
  page1_content["formulador_oficial"] = page1_content.get("formulador_oficial") or data.get("responsable") or ""
  page1_content["fecha_creacion"] = page1_content.get("fecha_creacion") or data.get("fecha_creacion") or datetime.now().strftime(...)
  if not page1_content.get("sector") and data.get("sector"):
      page1_content["sector"] = data.get("sector")
  \<close>
  The formatted current time is the parameter \<open>now\<close>. A page-1 record that is not a dict
  has no \<^verbatim>\<open>get\<close>.
\<close>

definition ai_or_form :: "dict \<Rightarrow> string \<Rightarrow> dict \<Rightarrow> string \<Rightarrow> json \<Rightarrow> json" where
  "ai_or_form page1 k data k' fallback =
     py_or (py_or (dget page1 k JNull) (dget data k' JNull)) fallback"

definition page1_content :: "string \<Rightarrow> dict \<Rightarrow> dict \<Rightarrow> error + dict" where
  "page1_content now data ai_content =
     (case dget ai_content ''pagina_1_datos_basicos'' (JObj []) of
        JObj p0 \<Rightarrow>
          (let p1 = AList.update ''nombre''
                      (ai_or_form p0 ''nombre'' data ''nombre_proyecto'' (JStr [])) p0;
               p2 = AList.update ''nombre_proyecto''
                      (py_or (dget data ''nombre_proyecto'' JNull) (JStr [])) p1;
               p3 = AList.update ''codigo_bpin''
                      (ai_or_form p2 ''codigo_bpin'' data ''bpin'' (JStr [])) p2;
               p4 = AList.update ''identificador''
                      (ai_or_form p3 ''identificador'' data ''identificador'' (JStr [])) p3;
               p5 = AList.update ''formulador_ciudadano''
                      (ai_or_form p4 ''formulador_ciudadano'' data ''responsable'' (JStr [])) p4;
               p6 = AList.update ''formulador_oficial''
                      (ai_or_form p5 ''formulador_oficial'' data ''responsable'' (JStr [])) p5;
               p7 = AList.update ''fecha_creacion''
                      (ai_or_form p6 ''fecha_creacion'' data ''fecha_creacion'' (JStr now)) p6
           in Inr (if \<not> truthy (dget p7 ''sector'' JNull) \<and> truthy (dget data ''sector'' JNull)
                   then AList.update ''sector'' (dget data ''sector'' JNull) p7
                   else p7))
      | _ \<Rightarrow> Inl AttributeError)"

text \<open>
  \<^verbatim>\<open>_add_document_letterhead\<close> writes nothing when the user gave a letterhead template;
  otherwise a header table whose middle cell holds the project name when it is truthy
  (the cell with the print date is left out of the model).
\<close>

definition add_document_letterhead :: "docx \<Rightarrow> bool \<Rightarrow> json \<Rightarrow> error + elem list" where
  "add_document_letterhead D has_letterhead nombre_proyecto =
     (if has_letterhead then Inr []
      else if truthy nombre_proyecto
      then ebind (add_run D [Raw nombre_proyecto]) (\<lambda>t. Inr [Letterhead t, Paragraph []])
      else Inr [Letterhead [], Paragraph []])"

text \<open>\<^verbatim>\<open>_add_field(label, value)\<close> and \<^verbatim>\<open>_add_inline_field(label, value)\<close> write the
  label, then \<^verbatim>\<open>p_val.add_run(value)\<close>.\<close>

definition add_field :: "docx \<Rightarrow> string \<Rightarrow> json \<Rightarrow> error + elem list" where
  "add_field D label v = ebind (add_run D [Raw v]) (\<lambda>t. Inr [LabelField label t])"

definition add_inline_field :: "docx \<Rightarrow> string \<Rightarrow> json \<Rightarrow> error + elem list" where
  "add_inline_field D label v = ebind (add_run D [Raw v]) (\<lambda>t. Inr [InlineField label t])"

definition datos_basicos :: string where
  "datos_basicos = ''Datos b'' @ [a_acute] @ ''sicos''"

text \<open>\<^verbatim>\<open>_add_page_1_datos_basicos(content)\<close>: the values are handed to
  \<^verbatim>\<open>add_run\<close> as they are, in this order.\<close>

definition add_page_1_datos_basicos :: "docx \<Rightarrow> bool \<Rightarrow> string \<Rightarrow> dict \<Rightarrow> error + elem list" where
  "add_page_1_datos_basicos D has_letterhead now content =
     ebind (add_document_letterhead D has_letterhead
              (py_or (dget content ''nombre_proyecto'' (JStr []))
                     (dget content ''nombre'' (JStr [])))) (\<lambda>letterhead.
     ebind (add_field D ''Nombre'' (dget content ''nombre'' (JStr []))) (\<lambda>nombre.
     ebind (add_run D [Raw (dget content ''tipologia'' (JStr ''A - PIIP - Bienes y Servicios''))])
       (\<lambda>tipo_text.
     ebind (add_run D [Raw (dget content ''codigo_bpin'' (JStr []))]) (\<lambda>bpin_text.
     ebind (add_field D ''Sector'' (dget content ''sector'' (JStr []))) (\<lambda>sector.
     ebind (add_run D [Raw (dget content ''es_proyecto_tipo'' (JStr ''No''))]) (\<lambda>run_es_val.
     ebind (add_run D [Raw (dget content ''fecha_creacion'' (JStr now))]) (\<lambda>run_fe_val.
     ebind (add_inline_field D ''Identificador:'' (dget content ''identificador'' (JStr [])))
       (\<lambda>identificador.
     ebind (add_inline_field D ''Formulador Ciudadano:''
              (dget content ''formulador_ciudadano'' (JStr []))) (\<lambda>ciudadano.
     ebind (add_inline_field D ''Formulador Oficial:''
              (dget content ''formulador_oficial'' (JStr []))) (\<lambda>oficial.
       Inr (letterhead @
            [Header datos_basicos [],
             SectionTitle datos_basicos,
             SubsectionTitle [Lit (''01 - '' @ datos_basicos @ '' del proyecto'')]] @
            nombre @
            [Paragraph [],
             Table [[[Lit (''Tipolog'' @ [i_acute] @ ''a'')], [Lit (''C'' @ [o_acute] @ ''digo BPIN'')]],
                    [tipo_text, bpin_text]] [],
             Paragraph []] @
            sector @
            [Paragraph [],
             Table [[[Lit ''Es Proyecto Tipo:''], run_es_val,
                     [Lit (''Fecha creaci'' @ [o_acute] @ ''n:'')], run_fe_val]] [],
             Paragraph []] @
            identificador @ ciudadano @ oficial)))))))))))"

text \<open>The first page as \<^verbatim>\<open>build\<close> writes it.\<close>

definition build_page_1 :: "docx \<Rightarrow> bool \<Rightarrow> string \<Rightarrow> dict \<Rightarrow> dict \<Rightarrow> error + elem list" where
  "build_page_1 D has_letterhead now data ai_content =
     ebind (page1_content now data ai_content)
       (add_page_1_datos_basicos D has_letterhead now)"

text \<open>A dict whose values are strings of printable characters.\<close>

definition printable_strings :: "dict \<Rightarrow> bool" where
  "printable_strings d = list_all (\<lambda>kv. is_str (snd kv) \<and> plain_value (snd kv)) d"

section \<open>The focalization page\<close>

subsection \<open>Dictionary keys\<close>

text \<open>
  \<^verbatim>\<open>grouped_data\<close> is a dict keyed by the policy, whose values are dicts keyed by the
  category. Both keys are values of the content: \<^verbatim>\<open>None\<close>, a bool, a number or a
  string can be a key, a list or a dict is unhashable (\<^verbatim>\<open>TypeError\<close>). Python
  compares keys with \<^verbatim>\<open>==\<close>, under which \<^verbatim>\<open>True == 1\<close> and \<^verbatim>\<open>False == 0\<close>; the
  dict keeps the key object that was stored first. An entry of such a dict is
  \<open>(key, key object, value)\<close>.
\<close>

datatype key = KNone | KNum int | KStr string

fun key_of :: "json \<Rightarrow> key option" where
  "key_of JNull = Some KNone"
| "key_of (JBool b) = Some (KNum (if b then 1 else 0))"
| "key_of (JInt i) = Some (KNum i)"
| "key_of (JStr s) = Some (KStr s)"
| "key_of (JArr _) = None"
| "key_of (JObj _) = None"

text \<open>\<^verbatim>\<open>a != b\<close>, which the merge loops apply to policies and categories (values that
  were dict keys or literals of the source).\<close>

definition py_ne :: "json \<Rightarrow> json \<Rightarrow> bool" where
  "py_ne a b =
     (case (key_of a, key_of b) of
        (Some x, Some y) \<Rightarrow> x \<noteq> y
      | (None, None) \<Rightarrow> a \<noteq> b
      | _ \<Rightarrow> True)"

type_synonym categories = "(key \<times> json \<times> dict list) list"
type_synonym grouped = "(key \<times> json \<times> categories) list"

subsection \<open>Grouping the entries\<close>

text \<open>
  \<^verbatim>\<open>
  for item in focalizacion:
      pol = item.get("politica", "General")
      cat = item.get("categoria", "General")
      if pol not in grouped_data:
          grouped_data[pol] = {}
      if cat not in grouped_data[pol]:
          grouped_data[pol][cat] = []
      grouped_data[pol][cat].append(item)
  \<close>
\<close>

fun group_item :: "grouped \<Rightarrow> json \<Rightarrow> error + grouped" where
  "group_item grouped_data (JObj item) =
     (let pol = dget item ''politica'' (JStr ''General'');
          cat = dget item ''categoria'' (JStr ''General'')
      in case key_of pol of
           None \<Rightarrow> Inl TypeError
         | Some kp \<Rightarrow>
             (let (pobj, cats) =
                    (case map_of grouped_data kp of None \<Rightarrow> (pol, []) | Some pc \<Rightarrow> pc)
              in case key_of cat of
                   None \<Rightarrow> Inl TypeError
                 | Some kc \<Rightarrow>
                     (let (cobj, items) =
                            (case map_of cats kc of None \<Rightarrow> (cat, []) | Some ci \<Rightarrow> ci)
                      in Inr (AList.update kp
                                (pobj, AList.update kc (cobj, items @ [item]) cats)
                                grouped_data))))"
| "group_item grouped_data _ = Inl AttributeError"

fun group_all :: "grouped \<Rightarrow> json list \<Rightarrow> error + grouped" where
  "group_all grouped_data [] = Inr grouped_data"
| "group_all grouped_data (item # rest) =
     (case group_item grouped_data item of
        Inl e \<Rightarrow> Inl e
      | Inr g \<Rightarrow> group_all g rest)"

subsection \<open>The rows and their subtotals\<close>

text \<open>
  The subtotals are Python floats. \<^verbatim>\<open>float()\<close>, float addition, the format
  \<^verbatim>\<open>:,.2f\<close> and the \<^verbatim>\<open>str()\<close> of a value that is not a string belong to Python: they
  are the fields of \<open>pylib\<close>, over any type \<open>'f\<close> of floats. \<open>float_of\<close> is \<open>None\<close>
  where \<^verbatim>\<open>float()\<close> raises.
\<close>

record 'f pylib =
  float_of :: "string \<Rightarrow> 'f option"
  fadd :: "'f \<Rightarrow> 'f \<Rightarrow> 'f"
  fzero :: "'f"
  fmt2 :: "'f \<Rightarrow> string"
  repr :: "json \<Rightarrow> string"

definition py_str :: "'f pylib \<Rightarrow> json \<Rightarrow> string" where
  "py_str L v = (case v of JStr s \<Rightarrow> s | _ \<Rightarrow> repr L v)"

text \<open>\<^verbatim>\<open>s.replace(a, b)\<close> for one character \<open>a\<close>, and \<^verbatim>\<open>s.strip()\<close>.\<close>

definition replace :: "char \<Rightarrow> string \<Rightarrow> string \<Rightarrow> string" where
  "replace a b s = concat (map (\<lambda>c. if c = a then b else [c]) s)"

definition strip :: "string \<Rightarrow> string" where
  "strip s = rev (dropWhile is_space (rev (dropWhile is_space s)))"

text \<open>\<^verbatim>\<open>str(item.get("valor", "0")).replace(".", "").replace(",", ".").replace("$", "").strip()\<close>\<close>

definition clean_valor :: "'f pylib \<Rightarrow> dict \<Rightarrow> string" where
  "clean_valor L item =
     strip (replace CHR ''$'' [] (replace CHR '','' ''.'' (replace CHR ''.'' []
       (py_str L (dget item ''valor'' (JStr ''0''))))))"

text \<open>The \<^verbatim>\<open>try\<close> with its bare \<^verbatim>\<open>except\<close>: a value that does not parse counts as
  \<^verbatim>\<open>0.0\<close>.\<close>

definition entry_val :: "'f pylib \<Rightarrow> dict \<Rightarrow> 'f" where
  "entry_val L item =
     (case float_of L (clean_valor L item) of Some val \<Rightarrow> val | None \<Rightarrow> fzero L)"

text \<open>\<^verbatim>\<open>f"${total:,.2f}".replace(",", "X").replace(".", ",").replace("X", ".")\<close>\<close>

definition fmt_total :: "'f pylib \<Rightarrow> 'f \<Rightarrow> json" where
  "fmt_total L total_val =
     JStr (replace CHR ''X'' ''.'' (replace CHR ''.'' '','' (replace CHR '','' ''X''
       (''$'' @ fmt2 L total_val))))"

datatype rowtype = Item | TotalCat | TotalPol

datatype row =
  Row (rtype: rowtype) (policy: json) (category: json) (subcategory: json) (rvalue: json)

definition total_categoria :: string where
  "total_categoria = ''Total Categor'' @ [i_acute] @ ''a''"

fun items_loop ::
  "'f pylib \<Rightarrow> json \<Rightarrow> json \<Rightarrow> dict list \<Rightarrow> 'f \<Rightarrow> row list \<Rightarrow> 'f \<times> row list" where
  "items_loop L pol cat [] cat_total_val rows_to_render = (cat_total_val, rows_to_render)"
| "items_loop L pol cat (item # items) cat_total_val rows_to_render =
     items_loop L pol cat items
       (fadd L cat_total_val (entry_val L item))
       (rows_to_render @
          [Row Item pol cat (dget item ''subcategoria'' (JStr [])) (dget item ''valor'' (JStr []))])"

fun categories_loop ::
  "'f pylib \<Rightarrow> json \<Rightarrow> categories \<Rightarrow> 'f \<Rightarrow> row list \<Rightarrow> 'f \<times> row list" where
  "categories_loop L pol [] policy_total_val rows_to_render = (policy_total_val, rows_to_render)"
| "categories_loop L pol ((kc, cat, items) # categories) policy_total_val rows_to_render =
     (let (cat_total_val, rows1) = items_loop L pol cat items (fzero L) rows_to_render
      in categories_loop L pol categories
           (fadd L policy_total_val cat_total_val)
           (rows1 @ [Row TotalCat pol cat (JStr total_categoria) (fmt_total L cat_total_val)]))"

fun policies_loop :: "'f pylib \<Rightarrow> grouped \<Rightarrow> row list \<Rightarrow> row list" where
  "policies_loop L [] rows_to_render = rows_to_render"
| "policies_loop L ((kp, pol, categories) # grouped_data) rows_to_render =
     (let (policy_total_val, rows1) = categories_loop L pol categories (fzero L) rows_to_render
      in policies_loop L grouped_data
           (rows1 @ [Row TotalPol pol (JStr ''TOTAL POLITICA TRANSVERSAL'') (JStr [])
                       (fmt_total L policy_total_val)]))"

definition rows_to_render :: "'f pylib \<Rightarrow> grouped \<Rightarrow> row list" where
  "rows_to_render L grouped_data = policies_loop L grouped_data []"

subsection \<open>Vertical merging\<close>

text \<open>
  \<^verbatim>\<open>_merge_vertically(table, col_idx, start_row_idx, end_row_idx)\<close> marks the cell of
  the start row with \<^verbatim>\<open>vMerge restart\<close> and the cells of the rows after it, up to but
  excluding the end row, as continuations. It touches table rows \<open>start_row_idx\<close> to
  \<open>end_row_idx - 1\<close>; the table has one header row and one row per entry of
  \<^verbatim>\<open>rows_to_render\<close>, so the row at index \<open>i\<close> of \<^verbatim>\<open>rows_to_render\<close> is table row
  \<open>i + 1\<close>. The model returns the marks in the order in which they are set; a table of
  the document carries its cell texts as they were written and the list of its marks
  (the library shows a continuation cell as part of the span above it).
\<close>

definition merge_vertically :: "nat \<Rightarrow> nat \<Rightarrow> nat \<Rightarrow> vmerge list" where
  "merge_vertically col_idx start_row_idx end_row_idx =
     (if end_row_idx \<le> start_row_idx then []
      else VMerge col_idx start_row_idx Restart #
           map (\<lambda>i. VMerge col_idx i Continue) [start_row_idx + 1 ..< end_row_idx])"

text \<open>
  \<^verbatim>\<open>
  start_idx = 0
  current_pol = rows_to_render[0]["policy"]
  for i in range(1, len(rows_to_render)):
      pol = rows_to_render[i]["policy"]
      if pol != current_pol:
          self._merge_vertically(table, 0, start_idx + 1, i)
          current_pol = pol
          start_idx = i
  self._merge_vertically(table, 0, start_idx + 1, len(rows_to_render))
  \<close>
  The loop functions take the rows from index \<open>i\<close> on and return the merges made so far
  with the final \<open>start_idx\<close>.
\<close>

fun policy_loop :: "row list \<Rightarrow> nat \<Rightarrow> nat \<Rightarrow> json \<Rightarrow> vmerge list \<Rightarrow> nat \<times> vmerge list" where
  "policy_loop [] i start_idx current_pol merges = (start_idx, merges)"
| "policy_loop (r # rs) i start_idx current_pol merges =
     (if py_ne (policy r) current_pol
      then policy_loop rs (i + 1) i (policy r)
             (merges @ merge_vertically 0 (start_idx + 1) i)
      else policy_loop rs (i + 1) start_idx current_pol merges)"

definition merge_policies :: "row list \<Rightarrow> error + vmerge list" where
  "merge_policies rows =
     (case rows of
        [] \<Rightarrow> Inl IndexError
      | r0 # rs \<Rightarrow>
          (let (start_idx, merges) = policy_loop rs 1 0 (policy r0) []
           in Inr (merges @ merge_vertically 0 (start_idx + 1) (length rows))))"

text \<open>
  \<^verbatim>\<open>
  start_idx = 0
  current_cat = rows_to_render[0]["category"]
  current_pol_for_cat = rows_to_render[0]["policy"]
  for i in range(1, len(rows_to_render)):
      row = rows_to_render[i]
      if row["policy"] != current_pol_for_cat or row["category"] != current_cat \
              or row["type"] == "total_pol":
          if i - start_idx > 1:
              self._merge_vertically(table, 1, start_idx + 1, i)
          start_idx = i
          current_cat = row["category"]
          current_pol_for_cat = row["policy"]
  if len(rows_to_render) - start_idx > 1:
      last_type = rows_to_render[-1]["type"]
      if last_type != "total_pol":
          self._merge_vertically(table, 1, start_idx + 1, len(rows_to_render))
  \<close>
\<close>

fun category_loop ::
  "row list \<Rightarrow> nat \<Rightarrow> nat \<Rightarrow> json \<Rightarrow> json \<Rightarrow> vmerge list \<Rightarrow> nat \<times> vmerge list" where
  "category_loop [] i start_idx current_cat current_pol_for_cat merges = (start_idx, merges)"
| "category_loop (r # rs) i start_idx current_cat current_pol_for_cat merges =
     (if py_ne (policy r) current_pol_for_cat \<or> py_ne (category r) current_cat
         \<or> rtype r = TotalPol
      then category_loop rs (i + 1) i (category r) (policy r)
             (if i - start_idx > 1
              then merges @ merge_vertically 1 (start_idx + 1) i
              else merges)
      else category_loop rs (i + 1) start_idx current_cat current_pol_for_cat merges)"

definition merge_categories :: "row list \<Rightarrow> error + vmerge list" where
  "merge_categories rows =
     (case rows of
        [] \<Rightarrow> Inl IndexError
      | r0 # rs \<Rightarrow>
          (let (start_idx, merges) = category_loop rs 1 0 (category r0) (policy r0) []
           in Inr (if length rows - start_idx > 1 \<and> rtype (last rows) \<noteq> TotalPol
                   then merges @ merge_vertically 1 (start_idx + 1) (length rows)
                   else merges)))"

subsection \<open>\<^verbatim>\<open>_add_page_focalizacion\<close>\<close>

text \<open>
  The cells of a table row, set with \<^verbatim>\<open>cell.text = ...\<close> in this order: a policy total
  fills columns 1 and 3; a category total column 2, first with the subcategory of the
  row and then with the literal, and column 3; an entry all four, the last with the
  \<^verbatim>\<open>str()\<close> of its value.
\<close>

fun row_cells :: "docx \<Rightarrow> row \<Rightarrow> error + ptext list" where
  "row_cells D (Row TotalPol pol cat sub val) =
     ebind (cell_text D [Raw cat]) (\<lambda>c1.
     ebind (cell_text D [Raw val]) (\<lambda>c3.
       Inr [[], c1, [], c3]))"
| "row_cells D (Row TotalCat pol cat sub val) =
     ebind (cell_text D [Raw sub]) (\<lambda>c2.
     ebind (cell_text D [Raw val]) (\<lambda>c3.
       Inr [[], [], [Lit total_categoria], c3]))"
| "row_cells D (Row Item pol cat sub val) =
     ebind (cell_text D [Raw pol]) (\<lambda>c0.
     ebind (cell_text D [Raw cat]) (\<lambda>c1.
     ebind (cell_text D [Raw sub]) (\<lambda>c2.
     ebind (cell_text D [Fmt val]) (\<lambda>c3.
       Inr [c0, c1, c2, c3]))))"

definition default_focalizacion :: json where
  "default_focalizacion =
     JArr [JObj [(''politica'', JStr []), (''categoria'', JStr []),
                 (''subcategoria'', JStr []), (''valor'', JStr ''0'')]]"

definition focal_headers :: "ptext list" where
  "focal_headers =
     [[Lit (''Pol'' @ [i_acute] @ ''tica'')], [Lit (''Categor'' @ [i_acute] @ ''a'')],
      [Lit (''SubCategor'' @ [i_acute] @ ''a'')], [Lit ''Valor'']]"

text \<open>The rows of the page: the grouping loop, then the loops over the groups.\<close>

definition focal_rows :: "'f pylib \<Rightarrow> json list \<Rightarrow> error + row list" where
  "focal_rows L entries =
     (case group_all [] entries of
        Inl e \<Rightarrow> Inl e
      | Inr grouped_data \<Rightarrow> Inr (rows_to_render L grouped_data))"

definition add_page_focalizacion :: "'f pylib \<Rightarrow> docx \<Rightarrow> dict \<Rightarrow> error + elem list" where
  "add_page_focalizacion L D content =
     (let f0 = dget content ''focalizacion'' (JArr []);
          focalizacion = (if \<not> truthy f0 then default_focalizacion else f0)
      in ebind (py_iter focalizacion) (\<lambda>entries.
         ebind (focal_rows L entries) (\<lambda>rows.
         ebind (emap (row_cells D) rows) (\<lambda>cells.
         ebind (merge_policies rows) (\<lambda>pm.
         ebind (merge_categories rows) (\<lambda>cm.
           Inr [Header (''Programaci'' @ [o_acute] @ ''n'')
                  (''Focalizaci'' @ [o_acute] @ ''n''),
                SectionTitle (''Focalizaci'' @ [o_acute] @ ''n''),
                Table (focal_headers # cells) (pm @ cm)]))))))"

subsection \<open>The rows of the ledger, stated directly\<close>

text \<open>
  What the grouping dictionaries and the three nested loops compute, as a function of
  the list of entries: the policies in the order of their first appearance; within a
  policy, the categories in the order of their first appearance; within a category, the
  entries in their order in the input, followed by the row of the category total; after
  the categories of a policy, the row of the policy total.
\<close>

definition pol_of :: "dict \<Rightarrow> json" where
  "pol_of d = dget d ''politica'' (JStr ''General'')"

definition cat_of :: "dict \<Rightarrow> json" where
  "cat_of d = dget d ''categoria'' (JStr ''General'')"

definition hashable_entry :: "dict \<Rightarrow> bool" where
  "hashable_entry d = (key_of (pol_of d) \<noteq> None \<and> key_of (cat_of d) \<noteq> None)"

definition in_policy :: "key \<Rightarrow> dict \<Rightarrow> bool" where
  "in_policy kp d = (key_of (pol_of d) = Some kp)"

definition in_category :: "key \<Rightarrow> dict \<Rightarrow> bool" where
  "in_category kc d = (key_of (cat_of d) = Some kc)"

definition first_seen :: "'a list \<Rightarrow> 'a list" where
  "first_seen xs = rev (remdups (rev xs))"

definition policy_keys :: "dict list \<Rightarrow> key list" where
  "policy_keys ds = first_seen (List.map_filter (\<lambda>d. key_of (pol_of d)) ds)"

definition category_keys :: "dict list \<Rightarrow> key list" where
  "category_keys ds = first_seen (List.map_filter (\<lambda>d. key_of (cat_of d)) ds)"

definition item_row :: "json \<Rightarrow> json \<Rightarrow> dict \<Rightarrow> row" where
  "item_row pol cat d =
     Row Item pol cat (dget d ''subcategoria'' (JStr [])) (dget d ''valor'' (JStr []))"

definition cat_total :: "'f pylib \<Rightarrow> dict list \<Rightarrow> 'f" where
  "cat_total L items = foldl (fadd L) (fzero L) (map (entry_val L) items)"

definition category_block :: "'f pylib \<Rightarrow> json \<Rightarrow> dict list \<Rightarrow> key \<Rightarrow> row list" where
  "category_block L pol ds kc =
     (let items = filter (in_category kc) ds;
          cat = cat_of (hd items)
      in map (item_row pol cat) items @
         [Row TotalCat pol cat (JStr total_categoria) (fmt_total L (cat_total L items))])"

definition policy_block :: "'f pylib \<Rightarrow> dict list \<Rightarrow> key \<Rightarrow> row list" where
  "policy_block L ds kp =
     (let ds_p = filter (in_policy kp) ds;
          pol = pol_of (hd ds_p);
          cats = category_keys ds_p
      in concat (map (category_block L pol ds_p) cats) @
         [Row TotalPol pol (JStr ''TOTAL POLITICA TRANSVERSAL'') (JStr [])
            (fmt_total L
               (foldl (fadd L) (fzero L)
                  (map (\<lambda>kc. cat_total L (filter (in_category kc) ds_p)) cats)))])"

definition ledger_spec :: "'f pylib \<Rightarrow> dict list \<Rightarrow> row list" where
  "ledger_spec L ds = concat (map (policy_block L ds) (policy_keys ds))"

text \<open>The grouping dictionaries, stated directly.\<close>

definition spec_cats :: "dict list \<Rightarrow> categories" where
  "spec_cats ds =
     map (\<lambda>kc. (kc, cat_of (hd (filter (in_category kc) ds)), filter (in_category kc) ds))
       (category_keys ds)"

definition spec_grouped :: "dict list \<Rightarrow> grouped" where
  "spec_grouped ds =
     map (\<lambda>kp. (kp, pol_of (hd (filter (in_policy kp) ds)), spec_cats (filter (in_policy kp) ds)))
       (policy_keys ds)"

definition cat_entry :: "dict list \<Rightarrow> key \<Rightarrow> json \<times> dict list" where
  "cat_entry ds k = (cat_of (hd (filter (in_category k) ds)), filter (in_category k) ds)"

definition pol_entry :: "dict list \<Rightarrow> key \<Rightarrow> json \<times> categories" where
  "pol_entry ds k = (pol_of (hd (filter (in_policy k) ds)), spec_cats (filter (in_policy k) ds))"

text \<open>The rows of one category and of one policy of the grouped data.\<close>

definition cat_rows :: "'f pylib \<Rightarrow> json \<Rightarrow> key \<times> json \<times> dict list \<Rightarrow> row list" where
  "cat_rows L pol c = (case c of (kc, cat, items) \<Rightarrow>
     map (item_row pol cat) items @
       [Row TotalCat pol cat (JStr total_categoria) (fmt_total L (cat_total L items))])"

definition pol_rows :: "'f pylib \<Rightarrow> key \<times> json \<times> categories \<Rightarrow> row list" where
  "pol_rows L p = (case p of (kp, pol, cats) \<Rightarrow>
     concat (map (cat_rows L pol) cats) @
       [Row TotalPol pol (JStr ''TOTAL POLITICA TRANSVERSAL'') (JStr [])
          (fmt_total L (foldl (fadd L) (fzero L) (map (\<lambda>c. cat_total L (snd (snd c))) cats)))])"

section \<open>Indicator and regionalization pages\<close>

definition programacion :: string where
  "programacion = ''Programaci'' @ [o_acute] @ ''n''"

subsection \<open>\<^verbatim>\<open>_add_page_indicador\<close>\<close>

text \<open>The cell with the indicator: the name, then seven lines whose label (the text up
  to the first colon, which is the colon of the literal) is bold.\<close>

definition indicador_lines :: "dict \<Rightarrow> ptext" where
  "indicador_lines ind =
     [Fmt (dget ind ''codigo'' (JStr [])), Lit '' '', Fmt (dget ind ''nombre'' (JStr [])),
      Lit newline,
      Lit (''Medido a trav'' @ [e_acute] @ ''s de:''), Lit '' '',
      Fmt (dget ind ''medido'' (JStr [])), Lit newline,
      Lit ''Meta total:'', Lit '' '', Fmt (dget ind ''meta_total'' (JStr [])), Lit newline,
      Lit (''F'' @ [o_acute] @ ''rmula:''), Lit '' '', Fmt (dget ind ''formula'' (JStr [])),
      Lit newline,
      Lit ''Es acumulativo:'', Lit '' '', Fmt (dget ind ''es_acumulativo'' (JStr [])),
      Lit newline,
      Lit ''Es Principal:'', Lit '' '', Fmt (dget ind ''es_principal'' (JStr [])), Lit newline,
      Lit ''Tipo de Fuente:'', Lit '' '', Fmt (dget ind ''tipo_fuente'' (JStr [])), Lit newline,
      Lit (''Fuente de Verificaci'' @ [o_acute] @ ''n:''), Lit '' '',
      Fmt (dget ind ''fuente_verificacion'' (JStr [])), Lit newline]"

text \<open>The runs of that cell whose text is not a literal, in the order in which
  \<^verbatim>\<open>p.add_run\<close> receives them: the name, and the value of each of the seven lines
  (the text after the first colon).\<close>

definition indicador_runs :: "dict \<Rightarrow> ptext list" where
  "indicador_runs ind =
     [[Fmt (dget ind ''codigo'' (JStr [])), Lit '' '', Fmt (dget ind ''nombre'' (JStr []))],
      [Lit '' '', Fmt (dget ind ''medido'' (JStr []))],
      [Lit '' '', Fmt (dget ind ''meta_total'' (JStr []))],
      [Lit '' '', Fmt (dget ind ''formula'' (JStr []))],
      [Lit '' '', Fmt (dget ind ''es_acumulativo'' (JStr []))],
      [Lit '' '', Fmt (dget ind ''es_principal'' (JStr []))],
      [Lit '' '', Fmt (dget ind ''tipo_fuente'' (JStr []))],
      [Lit '' '', Fmt (dget ind ''fuente_verificacion'' (JStr []))]]"

text \<open>One half of a row of the schedule table: the period and target of
  \<^verbatim>\<open>items[idx]\<close> when \<^verbatim>\<open>idx < len(items)\<close>, two empty cells otherwise.\<close>

definition periodo_meta :: "docx \<Rightarrow> json \<Rightarrow> nat \<Rightarrow> nat \<Rightarrow> error + ptext list" where
  "periodo_meta D items n idx =
     (if idx < n
      then ebind (py_index items idx) (\<lambda>item.
           ebind (jget item ''periodo'' (JStr [])) (\<lambda>periodo.
           ebind (cell_text D [Fmt periodo]) (\<lambda>c0.
           ebind (jget item ''meta'' (JStr [])) (\<lambda>meta.
           ebind (cell_text D [Fmt meta]) (\<lambda>c1.
             Inr [c0, c1])))))
      else Inr [[], []])"

definition programacion_row :: "docx \<Rightarrow> json \<Rightarrow> nat \<Rightarrow> nat \<Rightarrow> error + ptext list" where
  "programacion_row D items n r =
     ebind (periodo_meta D items n (r * 2)) (\<lambda>left.
     ebind (periodo_meta D items n (r * 2 + 1)) (\<lambda>right.
       Inr (left @ right)))"

definition indicadores_de_producto :: string where
  "indicadores_de_producto = ''Indicadores de producto''"

fun add_page_indicador :: "docx \<Rightarrow> json \<Rightarrow> error + elem list" where
  "add_page_indicador D (JObj data) =
     ebind (jget (dget data ''producto'' (JObj [])) ''codigo'' (JStr [])) (\<lambda>prod_codigo.
     ebind (jget (dget data ''producto'' (JObj [])) ''nombre'' (JStr [])) (\<lambda>prod_nombre.
     ebind (add_run D [Fmt prod_codigo, Lit '' '', Fmt prod_nombre]) (\<lambda>prod_text.
       (case dget data ''indicador'' (JObj []) of
          JObj ind \<Rightarrow>
            ebind (emap (add_run D) (indicador_runs ind)) (\<lambda>runs.
            (let p0 = dget data ''programacion_indicadores'' (JArr []);
                 items = (if \<not> truthy p0
                          then JArr [JObj [(''periodo'', JStr ''0''),
                                           (''meta'', dget ind ''meta_total'' (JStr ''0''))]]
                          else p0)
             in ebind (py_len items) (\<lambda>n.
                ebind (emap (programacion_row D items n) [0 ..< (n + 1) div 2]) (\<lambda>rows.
                  Inr [Header programacion indicadores_de_producto,
                       Paragraph [],
                       Paragraph [Lit ''Producto''],
                       Table [[prod_text]] [],
                       Paragraph [],
                       Paragraph [Lit ''Indicador''],
                       Table [[indicador_lines ind]] [],
                       Paragraph [],
                       Paragraph [Lit (programacion @ '' de indicadores'')],
                       Table ([[Lit ''Periodo''], [Lit ''Meta por periodo''],
                               [Lit ''Periodo''], [Lit ''Meta por periodo'']] # rows) []]))))
        | _ \<Rightarrow> Inl AttributeError))))"
| "add_page_indicador D _ = Inl AttributeError"

subsection \<open>\<^verbatim>\<open>_add_pages_indicadores\<close>\<close>

text \<open>
  \<^verbatim>\<open>
  indicadores = content.get("indicadores_producto", [])
  if not indicadores:
      old_single = content.get("pagina_22_indicadores_producto")
      if old_single:
          indicadores = [old_single]
  if not indicadores:
      indicadores = [{"objetivo": {"numero": "1", "descripcion": ""},
                      "producto": {"nombre": "", "codigo": "1.1"},
                      "indicador": {"nombre": "", "codigo": "1.1.1"}}]
  for idx, ind_data in enumerate(indicadores):
      self._add_page_indicador(ind_data)
      if idx < len(indicadores) - 1:
          self.doc.add_page_break()
  \<close>
\<close>

definition placeholder_indicador :: json where
  "placeholder_indicador =
     JObj [(''objetivo'', JObj [(''numero'', JStr ''1''), (''descripcion'', JStr [])]),
           (''producto'', JObj [(''nombre'', JStr []), (''codigo'', JStr ''1.1'')]),
           (''indicador'', JObj [(''nombre'', JStr []), (''codigo'', JStr ''1.1.1'')])]"

definition indicadores_of :: "dict \<Rightarrow> json" where
  "indicadores_of content =
     (let i0 = dget content ''indicadores_producto'' (JArr []);
          old_single = dget content ''pagina_22_indicadores_producto'' JNull;
          i1 = (if \<not> truthy i0 \<and> truthy old_single then JArr [old_single] else i0)
      in if \<not> truthy i1 then JArr [placeholder_indicador] else i1)"

fun indicador_pages :: "docx \<Rightarrow> json list \<Rightarrow> error + elem list" where
  "indicador_pages D [] = Inr []"
| "indicador_pages D (ind_data # rest) =
     ebind (add_page_indicador D ind_data) (\<lambda>page.
     ebind (indicador_pages D rest) (\<lambda>pages.
       Inr (page @ (if rest \<noteq> [] then [PageBreak] else []) @ pages)))"

definition add_pages_indicadores :: "docx \<Rightarrow> dict \<Rightarrow> error + elem list" where
  "add_pages_indicadores D content =
     ebind (py_iter (indicadores_of content)) (indicador_pages D)"

subsection \<open>\<^verbatim>\<open>_add_pages_regionalizacion\<close>\<close>

text \<open>A row of the cost table: six cells, each the \<^verbatim>\<open>str()\<close> of a field of the
  item.\<close>

definition costos_cell :: "docx \<Rightarrow> json \<Rightarrow> string \<Rightarrow> error + ptext" where
  "costos_cell D item k = ebind (jget item k (JStr [])) (\<lambda>v. cell_text D [Fmt v])"

definition costos_row :: "docx \<Rightarrow> json \<Rightarrow> error + ptext list" where
  "costos_row D item =
     emap (costos_cell D item)
       [''periodo'', ''costo_total'', ''costo_regionalizado'', ''meta_total'',
        ''meta_regionalizada'', ''beneficiarios'']"

definition headers_loc :: "ptext list" where
  "headers_loc =
     [[Lit (''Regi'' @ [o_acute] @ ''n'')], [Lit ''Departamento''], [Lit ''Municipio''],
      [Lit (''Tipo de Agrupaci'' @ [o_acute] @ ''n'')], [Lit (''Agrupaci'' @ [o_acute] @ ''n'')]]"

definition headers_cost :: "ptext list" where
  "headers_cost =
     [[Lit ''Periodo''], [Lit ''Costo Total''], [Lit (''Costo'' @ newline @ ''Regionalizado'')],
      [Lit ''Meta Total''], [Lit (''Meta'' @ newline @ ''Regionalizada'')],
      [Lit ''Beneficiarios'']]"

text \<open>
  The block of one record: a spacing paragraph, the table with the product, the table
  with the location and the table with the costs per period. The product is handed to
  \<^verbatim>\<open>p.add_run\<close> and the five fields of the location to \<^verbatim>\<open>cell.text\<close> as they
  are.
\<close>

definition ubicacion_cell :: "docx \<Rightarrow> dict \<Rightarrow> string \<times> json \<Rightarrow> error + ptext" where
  "ubicacion_cell D ubicacion kd = cell_text D [Raw (dget ubicacion (fst kd) (snd kd))]"

fun regionalizacion_block :: "docx \<Rightarrow> json \<Rightarrow> error + elem list" where
  "regionalizacion_block D (JObj prod_data) =
     ebind (add_run D [Raw (dget prod_data ''producto'' (JStr []))]) (\<lambda>producto.
       (case dget prod_data ''ubicacion'' (JObj []) of
          JObj ubicacion \<Rightarrow>
            ebind (emap (ubicacion_cell D ubicacion)
                     [(''region'', JStr ''Caribe''), (''departamento'', JStr []),
                      (''municipio'', JStr []), (''tipo_agrupacion'', JStr []),
                      (''agrupacion'', JStr [])]) (\<lambda>location.
            (let t0 = dget prod_data ''tabla_costos'' (JArr []);
                 tabla_costos = (if \<not> truthy t0
                                 then JArr [JObj [(''periodo'', JStr ''0''),
                                                  (''costo_total'', JStr ''0'')]]
                                 else t0)
             in ebind (py_len tabla_costos) (\<lambda>n.
                ebind (py_iter tabla_costos) (\<lambda>items.
                ebind (emap (costos_row D) items) (\<lambda>rows.
                  Inr [Paragraph [],
                       Table [[Lit ''Producto: '' # producto]] [],
                       Table [headers_loc, location] [],
                       Table (headers_cost # rows) []])))))
        | _ \<Rightarrow> Inl AttributeError))"
| "regionalizacion_block D _ = Inl AttributeError"

definition regionalizacion :: string where
  "regionalizacion = ''Regionalizaci'' @ [o_acute] @ ''n''"

definition add_pages_regionalizacion :: "docx \<Rightarrow> dict \<Rightarrow> error + elem list" where
  "add_pages_regionalizacion D content =
     (let reg_productos = dget content ''regionalizacion_productos'' (JArr [])
      in if \<not> truthy reg_productos then Inr []
         else ebind (py_iter reg_productos) (\<lambda>records.
              ebind (emap (regionalizacion_block D) records) (\<lambda>blocks.
                Inr ([Header programacion regionalizacion, SectionTitle regionalizacion]
                     @ concat blocks))))"

subsection \<open>Counting pages\<close>

text \<open>Every indicator page starts with the section header of the indicators, and every
  regionalization block has one table of a single cell that starts with \<open>Producto:\<close>.\<close>

definition indicator_pages_in :: "elem list \<Rightarrow> nat" where
  "indicator_pages_in els =
     length (filter (\<lambda>e. e = Header programacion indicadores_de_producto) els)"

fun is_producto_table :: "elem \<Rightarrow> bool" where
  "is_producto_table (Table [[Lit l # _]] _) = (l = ''Producto: '')"
| "is_producto_table _ = False"

definition regionalizacion_blocks_in :: "elem list \<Rightarrow> nat" where
  "regionalizacion_blocks_in els = length (filter is_producto_table els)"

section \<open>The value chain page\<close>











text \<open>\<^verbatim>\<open>_add_pages_12_16\<close> passes
  \<^verbatim>\<open>content.get("pagina_13_cadena_valor") or content.get("pagina_14_cadena_valor", {})\<close>.\<close>

definition cadena_data :: "dict \<Rightarrow> json" where
  "cadena_data ai_content =
     py_or (dget ai_content ''pagina_13_cadena_valor'' JNull)
           (dget ai_content ''pagina_14_cadena_valor'' (JObj []))"

subsection \<open>The values that a page shows\<close>
















text \<open>A value whose strings, at any depth, have printable characters only.\<close>

fun printable_json :: "json \<Rightarrow> bool" where
  "printable_json (JArr xs) = (\<forall>x\<in>set xs. printable_json x)"
| "printable_json (JObj d) = (\<forall>kv\<in>set d. printable_json (snd kv))"
| "printable_json v = plain_value v"

section \<open>Example inputs\<close>


text \<open>A library that refuses, with \<^verbatim>\<open>TypeError\<close>, every text that is not plain. The
  examples hand it plain texts.\<close>

definition strict_docx :: docx where
  "strict_docx = \<lparr>run_error = (\<lambda>t. Some TypeError), text_error = (\<lambda>t. Some TypeError)\<rparr>"






text \<open>
  The values of Python's float functions at the arguments that the examples pass to
  them, with the integers \<open>0\<close> and \<open>1000\<close> for the floats \<open>0.0\<close> and \<open>1000.0\<close>:
  \<^verbatim>\<open>float("0")\<close>, \<^verbatim>\<open>float("1000.00")\<close>, a \<^verbatim>\<open>ValueError\<close> for the other strings of
  the examples, and the formats \<^verbatim>\<open>0.00\<close> and \<^verbatim>\<open>1,000.00\<close>.
\<close>

definition sample_lib :: "int pylib" where
  "sample_lib =
     \<lparr>float_of = (\<lambda>s. if s = ''0'' then Some 0 else if s = ''1000.00'' then Some 1000 else None),
      fadd = (+),
      fzero = 0,
      fmt2 = (\<lambda>x. if x = 1000 then ''1,000.00'' else ''0.00''),
      repr = (\<lambda>v. [])\<rparr>"

definition focal_entry :: "string \<Rightarrow> string \<Rightarrow> string \<Rightarrow> string \<Rightarrow> json" where
  "focal_entry pol cat sub val =
     JObj [(''politica'', JStr pol), (''categoria'', JStr cat),
           (''subcategoria'', JStr sub), (''valor'', JStr val)]"

text \<open>The ledger \<open>[(A,1,_), (A,1,_), (A,2,_), (B,1,_)]\<close>: as rows, and as the entries
  of the content from which the page makes its rows.\<close>

definition ledger_rows :: "row list" where
  "ledger_rows =
     [Row Item (JStr ''A'') (JStr ''1'') (JStr []) (JStr ''0''),
      Row Item (JStr ''A'') (JStr ''1'') (JStr []) (JStr ''0''),
      Row Item (JStr ''A'') (JStr ''2'') (JStr []) (JStr ''0''),
      Row Item (JStr ''B'') (JStr ''1'') (JStr []) (JStr ''0'')]"

definition ledger_content :: dict where
  "ledger_content =
     [(''focalizacion'',
       JArr [focal_entry ''A'' ''1'' [] ''0'', focal_entry ''A'' ''1'' [] ''0'',
             focal_entry ''A'' ''2'' [] ''0'', focal_entry ''B'' ''1'' [] ''0''])]"

text \<open>The vertical merges of a page.\<close>

fun merges_of :: "error + elem list \<Rightarrow> vmerge list" where
  "merges_of (Inr [h, t, Table cells merges]) = merges"
| "merges_of _ = []"

text \<open>Form data of a project, and two generated contents that differ in the BPIN code of
  their page-1 record.\<close>

definition form_data :: dict where
  "form_data =
     [(''nombre_proyecto'', JStr ''Puente''), (''bpin'', JStr ''2024001''),
      (''identificador'', JStr ''7''), (''responsable'', JStr ''Ana'')]"

definition ai_content_bpin :: dict where
  "ai_content_bpin = [(''pagina_1_datos_basicos'', JObj [(''codigo_bpin'', JStr ''999'')])]"

definition ai_content_plain :: dict where
  "ai_content_plain = [(''pagina_1_datos_basicos'', JObj [(''codigo_bpin'', JStr [])])]"

definition now_sample :: string where
  "now_sample = ''01/02/2026 10:00:00''"

text \<open>A generated content whose value chain has two products, with one indicator
  record and no regionalization record; and one with a product and neither.\<close>

definition two_products :: json where
  "two_products =
     JArr [JObj [(''codigo'', JStr ''1.1''), (''nombre'', JStr ''Subsidios'')],
           JObj [(''codigo'', JStr ''1.2''), (''nombre'', JStr ''Asistencia'')]]"

definition content_two_products :: dict where
  "content_two_products =
     [(''pagina_13_cadena_valor'', JObj [(''productos'', two_products)]),
      (''indicadores_producto'',
       JArr [JObj [(''producto'', JObj [(''codigo'', JStr ''1.1''), (''nombre'', JStr ''Subsidios'')])]])]"


text \<open>Three entries in which the second separates two entries of one group; and a
  category with one value that parses and one that does not.\<close>

definition interleaved_entries :: "dict list" where
  "interleaved_entries =
     [[(''politica'', JStr ''A''), (''categoria'', JStr ''x''),
       (''subcategoria'', JStr ''s1''), (''valor'', JStr ''0'')],
      [(''politica'', JStr ''B''), (''categoria'', JStr ''y''),
       (''subcategoria'', JStr ''s2''), (''valor'', JStr ''0'')],
      [(''politica'', JStr ''A''), (''categoria'', JStr ''x''),
       (''subcategoria'', JStr ''s3''), (''valor'', JStr ''0'')]]"

definition entry_parsed :: dict where
  "entry_parsed =
     [(''politica'', JStr ''A''), (''categoria'', JStr ''x''),
      (''subcategoria'', JStr ''s1''), (''valor'', JStr ''$1.000,00'')]"

definition entry_malformed :: dict where
  "entry_malformed =
     [(''politica'', JStr ''A''), (''categoria'', JStr ''x''),
      (''subcategoria'', JStr ''s2''), (''valor'', JStr ''mil pesos'')]"




section \<open>Exceptions and the library: basic facts\<close>

lemma ebind_Inr_iff: "ebind m f = Inr y \<longleftrightarrow> (\<exists>x. m = Inr x \<and> f x = Inr y)"
  by (cases m) (auto simp: ebind_def)

lemma ebindE:
  assumes "ebind m f = Inr y"
  obtains x where "m = Inr x" and "f x = Inr y"
  using assms by (cases m) (auto simp: ebind_def)

lemma ebind_ok: "m = Inr x \<Longrightarrow> \<not> isl (f x) \<Longrightarrow> \<not> isl (ebind m f)"
  by (simp add: ebind_def)


lemma emap_Cons_Inr:
  "emap f (x # xs) = Inr ys \<longleftrightarrow> (\<exists>y ys'. f x = Inr y \<and> emap f xs = Inr ys' \<and> ys = y # ys')"
  by (auto split: sum.splits)


lemma emap_id: "\<forall>x\<in>set xs. f x = Inr x \<Longrightarrow> emap f xs = Inr xs"
  by (induction xs) auto

lemma emap_Inr_id: "emap f xs = Inr ys \<Longrightarrow> (\<And>x y. f x = Inr y \<Longrightarrow> y = x) \<Longrightarrow> ys = xs"
proof (induction xs arbitrary: ys)
  case Nil
  then show ?case by simp
next
  case (Cons x xs)
  from Cons.prems(1)[unfolded emap_Cons_Inr] obtain y ys' where
    "f x = Inr y" "emap f xs = Inr ys'" "ys = y # ys'" by blast
  then show ?case using Cons.IH[of ys'] Cons.prems(2) by auto
qed

lemma add_run_Inr: "add_run D t = Inr t' \<Longrightarrow> t' = t"
  by (auto simp: add_run_def split: if_splits option.splits)


lemma add_run_plain: "plain t \<Longrightarrow> add_run D t = Inr t"
  by (simp add: add_run_def)


section \<open>Properties of \<^verbatim>\<open>_extract_json\<close>\<close>

subsection \<open>What the regular expressions find\<close>

lemma prefix_fence_Cons: "prefix fence (c # cs) \<Longrightarrow> \<not> is_space c"
  by (auto simp: fence_def is_space_def)

lemma rmatch_space_fence:
  "rmatch [Star True False Space, Exact fence] t =
     (if prefix fence (dropWhile is_space t) then Some (takeWhile is_space t @ fence, []) else None)"
proof (induction t)
  case Nil
  then show ?case by (simp add: fence_def)
next
  case (Cons c cs)
  show ?case
  proof (cases "is_space c")
    case True
    then have np: "\<not> prefix fence (c # cs)" using prefix_fence_Cons by blast
    show ?thesis using True np Cons.IH by simp
  next
    case False
    then show ?thesis by simp
  qed
qed

lemma split_at_append:
  "split_at sub t = Some (a, b) \<Longrightarrow> t = a @ sub @ b"
proof (induction t arbitrary: a b)
  case Nil
  then show ?case by (auto split: if_splits)
next
  case (Cons c cs)
  show ?case
  proof (cases "prefix sub (c # cs)")
    case True
    then obtain r where r: "c # cs = sub @ r" by (auto simp: prefix_def)
    from True Cons.prems have "a = []" "b = drop (length sub) (c # cs)" by auto
    then show ?thesis using r by simp
  next
    case False
    with Cons.prems obtain a' where s: "split_at sub cs = Some (a', b)" and a: "a = c # a'"
      by (auto split: if_splits)
    from Cons.IH[OF s] a show ?thesis by simp
  qed
qed

lemma split_at_None_suffix:
  "split_at sub t = None \<Longrightarrow> suffix u t \<Longrightarrow> split_at sub u = None"
proof (induction t)
  case Nil
  then show ?case by simp
next
  case (Cons c cs)
  from Cons.prems(1) have np: "\<not> prefix sub (c # cs)" and n: "split_at sub cs = None"
    by (auto split: if_splits)
  from Cons.prems(2) have "u = c # cs \<or> suffix u cs" by (simp add: suffix_Cons)
  then show ?case using Cons.IH[OF n] Cons.prems(1) by auto
qed

lemma split_at_spaces:
  "prefix fence (dropWhile is_space t) \<Longrightarrow>
   \<exists>r. split_at fence t = Some (takeWhile is_space t, r)"
proof (induction t)
  case Nil
  then show ?case by (simp add: fence_def)
next
  case (Cons c cs)
  show ?case
  proof (cases "is_space c")
    case True
    then have np: "\<not> prefix fence (c # cs)" using prefix_fence_Cons by blast
    from Cons True obtain r where "split_at fence cs = Some (takeWhile is_space cs, r)" by auto
    then show ?thesis using True np by simp
  next
    case False
    with Cons.prems show ?thesis by simp
  qed
qed

lemma rstrip_spaces: "\<forall>x\<in>set s. is_space x \<Longrightarrow> rstrip s = []"
  by (simp add: rstrip_def)

lemma rstrip_Cons:
  "rstrip (c # s) = (if is_space c \<and> (\<forall>x\<in>set s. is_space x) then [] else c # rstrip s)"
proof (cases "\<forall>x\<in>set s. is_space x")
  case True
  then have "dropWhile is_space (rev s) = []" by simp
  then show ?thesis using True by (simp add: rstrip_def dropWhile_append)
next
  case False
  then have "dropWhile is_space (rev s) \<noteq> []" by auto
  then show ?thesis using False by (simp add: rstrip_def dropWhile_append)
qed

lemma lazy_step:
  "rmatch (Star False True Any # r) (c # cs) =
     (case rmatch r (c # cs) of
        Some m \<Rightarrow> Some m
      | None \<Rightarrow> map_option (\<lambda>(w, g). (c # w, c # g)) (rmatch (Star False True Any # r) cs))"
  by (simp split: option.split)

lemma rmatch_lazy:
  "map_option snd (rmatch lazy_pat t) =
     (case split_at fence t of None \<Rightarrow> None | Some (body, _) \<Rightarrow> Some (rstrip body))"
proof (induction t)
  case Nil
  then show ?case by (simp add: lazy_pat_def fence_def)
next
  case (Cons c cs)
  show ?case
  proof (cases "prefix fence (dropWhile is_space (c # cs))")
    case True
    from split_at_spaces[OF True] obtain r where
      r: "split_at fence (c # cs) = Some (takeWhile is_space (c # cs), r)" by blast
    have "rstrip (takeWhile is_space (c # cs)) = []"
      by (rule rstrip_spaces) (auto dest: set_takeWhileD)
    moreover have "map_option snd (rmatch lazy_pat (c # cs)) = Some []"
      unfolding lazy_pat_def lazy_step rmatch_space_fence using True by simp
    ultimately show ?thesis using r by simp
  next
    case False
    then have np: "\<not> prefix fence (c # cs)"
      using prefix_fence_Cons[of c cs] by auto
    have m: "rmatch lazy_pat (c # cs) =
               map_option (\<lambda>(w, g). (c # w, c # g)) (rmatch lazy_pat cs)"
      unfolding lazy_pat_def lazy_step rmatch_space_fence using False by simp
    show ?thesis
    proof (cases "split_at fence cs")
      case None
      then show ?thesis using m np Cons.IH by (simp add: option.map_comp)
    next
      case (Some p)
      obtain body rest where p: "p = (body, rest)" by (cases p)
      from split_at_append[OF Some[unfolded p]] have cs: "cs = body @ fence @ rest" .
      have "\<not> (is_space c \<and> (\<forall>x\<in>set body. is_space x))"
      proof
        assume a: "is_space c \<and> (\<forall>x\<in>set body. is_space x)"
        then have "dropWhile is_space (c # cs) = fence @ rest"
          using cs by (simp add: dropWhile_append fence_def is_space_def)
        with False show False by simp
      qed
      then have rs: "rstrip (c # body) = c # rstrip body" by (simp add: rstrip_Cons)
      from Cons.IH Some p obtain w where w: "rmatch lazy_pat cs = Some (w, rstrip body)"
        by (cases "rmatch lazy_pat cs") auto
      show ?thesis using m np Some p rs w by simp
    qed
  qed
qed


lemma split_at_None_dropWhile:
  "split_at fence (dropWhile is_space t) = None \<Longrightarrow> split_at fence t = None"
proof (induction t)
  case Nil
  then show ?case by simp
next
  case (Cons c cs)
  show ?case
  proof (cases "is_space c")
    case True
    then have "\<not> prefix fence (c # cs)" using prefix_fence_Cons by blast
    then show ?thesis using Cons True by simp
  next
    case False
    then show ?thesis using Cons.prems by simp
  qed
qed

lemma greedy_space_step:
  "rmatch (Star True False Space # r) (c # cs) =
     (if is_space c
      then (case rmatch (Star True False Space # r) cs of
              Some (w, g) \<Rightarrow> Some (c # w, g)
            | None \<Rightarrow> rmatch r (c # cs))
      else rmatch r (c # cs))"
  by (simp split: option.split)

lemma rmatch_fence_body:
  "map_option snd (rmatch fence_body_pat t) = block_body t"
proof (induction t)
  case Nil
  have "rmatch fence_body_pat [] = rmatch lazy_pat []" by (simp add: fence_body_pat_def)
  then show ?case using rmatch_lazy[of "[]"] by (simp add: block_body_def)
next
  case (Cons c cs)
  show ?case
  proof (cases "is_space c")
    case True
    show ?thesis
    proof (cases "rmatch fence_body_pat cs")
      case None
      then have "block_body cs = None" using Cons.IH by simp
      then have "split_at fence (dropWhile is_space cs) = None"
        by (auto simp: block_body_def split: option.splits)
      then have n: "split_at fence (c # cs) = None"
        using split_at_None_dropWhile[of "c # cs"] True by simp
      have "rmatch fence_body_pat (c # cs) = rmatch lazy_pat (c # cs)"
        using None True unfolding fence_body_pat_def greedy_space_step by simp
      then have "map_option snd (rmatch fence_body_pat (c # cs)) = None"
        using rmatch_lazy[of "c # cs"] n by simp
      moreover have "block_body (c # cs) = None"
        using \<open>block_body cs = None\<close> True by (simp add: block_body_def)
      ultimately show ?thesis by simp
    next
      case (Some m)
      obtain w g where m: "m = (w, g)" by (cases m)
      have "rmatch fence_body_pat (c # cs) = Some (c # w, g)"
        using Some m True unfolding fence_body_pat_def greedy_space_step by simp
      moreover have "block_body (c # cs) = block_body cs"
        using True by (simp add: block_body_def)
      ultimately show ?thesis using Cons.IH Some m by simp
    qed
  next
    case False
    have "rmatch fence_body_pat (c # cs) = rmatch lazy_pat (c # cs)"
      using False unfolding fence_body_pat_def greedy_space_step by simp
    then show ?thesis using rmatch_lazy[of "c # cs"] False by (simp add: block_body_def)
  qed
qed

lemma rmatch_header:
  "map_option snd (rmatch (Exact hdr # fence_body_pat) s) =
     (if prefix hdr s then block_body (drop (length hdr) s) else None)"
  using rmatch_fence_body[of "drop (length hdr) s"]
  by (cases "rmatch fence_body_pat (drop (length hdr) s)") (auto simp: option.map_comp)

lemma block_body_None_suffix:
  assumes "block_body t = None" and "suffix u t"
  shows "block_body u = None"
proof -
  from assms(1) have "split_at fence (dropWhile is_space t) = None"
    by (auto simp: block_body_def split: option.splits)
  then have "split_at fence t = None" by (rule split_at_None_dropWhile)
  moreover have "suffix (dropWhile is_space u) t"
    using assms(2) by (meson suffix_dropWhile suffix_order.trans)
  ultimately have "split_at fence (dropWhile is_space u) = None"
    by (rule split_at_None_suffix)
  then show ?thesis by (simp add: block_body_def)
qed

lemma re_search_fenced:
  assumes "hdr \<noteq> []"
  shows "map_option snd (re_search (Exact hdr # fence_body_pat) s) =
     (case split_at hdr s of None \<Rightarrow> None | Some (_, rest) \<Rightarrow> block_body rest)"
proof (induction s)
  case Nil
  then show ?case using assms rmatch_header[of hdr "[]"] by simp
next
  case (Cons c cs)
  let ?p = "Exact hdr # fence_body_pat"
  show ?case
  proof (cases "prefix hdr (c # cs)")
    case True
    let ?rest = "drop (length hdr) (c # cs)"
    have sp: "split_at hdr (c # cs) = Some ([], ?rest)" using True by simp
    have h: "map_option snd (rmatch ?p (c # cs)) = block_body ?rest"
      using rmatch_header[of hdr "c # cs"] True by simp
    show ?thesis
    proof (cases "rmatch ?p (c # cs)")
      case (Some m)
      then show ?thesis using h sp by simp
    next
      case None
      then have bn: "block_body ?rest = None" using h by simp
      have "(case split_at hdr cs of None \<Rightarrow> None | Some (_, rest) \<Rightarrow> block_body rest) = None"
      proof (cases "split_at hdr cs")
        case None
        then show ?thesis by simp
      next
        case (Some q)
        obtain pre rest' where q: "q = (pre, rest')" by (cases q)
        from split_at_append[OF Some[unfolded q]] have cs: "cs = pre @ hdr @ rest'" .
        have s1: "suffix rest' (c # cs)" using cs by (simp add: suffix_def)
        have s2: "suffix ?rest (c # cs)" by (rule suffix_drop)
        have "length hdr > 0" using assms by simp
        then have "length rest' \<le> length ?rest" using cs by simp
        with s1 s2 have "suffix rest' ?rest" by (rule suffix_length_suffix)
        with bn have "block_body rest' = None" by (rule block_body_None_suffix)
        then show ?thesis using Some q by simp
      qed
      then show ?thesis using None Cons.IH sp bn by simp
    qed
  next
    case False
    then have "rmatch ?p (c # cs) = None" by simp
    then show ?thesis using False Cons.IH
      by (cases "split_at hdr cs") auto
  qed
qed

lemma search_json_fence: "map_option snd (re_search pat_json_fence s) = fenced_block ''json'' s"
  using re_search_fenced[of "fence @ ''json''" s]
  by (simp add: pat_json_fence_def fenced_block_def fence_body_pat_def lazy_pat_def)

lemma search_fence: "map_option snd (re_search pat_fence s) = fenced_block [] s"
  using re_search_fenced[of fence s]
  by (simp add: pat_fence_def fenced_block_def fence_body_pat_def lazy_pat_def fence_def)


lemma upto_last_Cons:
  "upto_last x (c # cs) = (if x \<in> set cs then c # upto_last x cs else if c = x then [c] else [])"
proof (cases "x \<in> set cs")
  case True
  then have "dropWhile (\<lambda>y. y \<noteq> x) (rev cs) \<noteq> []" by auto
  then show ?thesis using True by (simp add: upto_last_def dropWhile_append)
next
  case False
  then have "dropWhile (\<lambda>y. y \<noteq> x) (rev cs) = []" by auto
  then show ?thesis using False by (simp add: upto_last_def dropWhile_append)
qed

lemma greedy_any_step:
  "rmatch (Star True False Any # r) (c # cs) =
     (case rmatch (Star True False Any # r) cs of
        Some (w, g) \<Rightarrow> Some (c # w, g)
      | None \<Rightarrow> rmatch r (c # cs))"
  by (simp split: option.split)

lemma rmatch_any_brace:
  "rmatch [Star True False Any, Exact ''}''] t =
     (if CHR ''}'' \<in> set t then Some (upto_last CHR ''}'' t, []) else None)"
proof (induction t)
  case Nil
  then show ?case by simp
next
  case (Cons c cs)
  show ?case unfolding greedy_any_step Cons.IH
    by (simp add: upto_last_Cons)
qed

lemma rmatch_brace:
  "map_option fst (rmatch pat_brace s) =
     (case s of [] \<Rightarrow> None
      | b # t \<Rightarrow> if b = CHR ''{'' \<and> CHR ''}'' \<in> set t
                 then Some (b # upto_last CHR ''}'' t) else None)"
proof (cases s)
  case Nil
  then show ?thesis by (simp add: pat_brace_def)
next
  case (Cons b t)
  have "rmatch pat_brace (b # t) =
          (if b = CHR ''{''
           then map_option (\<lambda>(w, g). (''{'' @ w, g)) (rmatch [Star True False Any, Exact ''}''] t)
           else None)"
    unfolding pat_brace_def by (subst rmatch.simps) simp
  then show ?thesis using Cons unfolding rmatch_any_brace by simp
qed

lemma outer_brace_span_no_close: "CHR ''}'' \<notin> set s \<Longrightarrow> outer_brace_span s = None"
proof -
  assume a: "CHR ''}'' \<notin> set s"
  have "set (dropWhile (\<lambda>x. x \<noteq> CHR ''{'') s) \<subseteq> set s" by (rule set_dropWhileD[THEN subsetI])
  then show ?thesis using a
    by (auto simp: outer_brace_span_def split: list.splits)
qed

lemma search_brace: "map_option fst (re_search pat_brace s) = outer_brace_span s"
proof (induction s)
  case Nil
  then show ?case using rmatch_brace[of "[]"] by (simp add: outer_brace_span_def)
next
  case (Cons c cs)
  show ?case
  proof (cases "rmatch pat_brace (c # cs)")
    case (Some m)
    then show ?thesis using rmatch_brace[of "c # cs"]
      by (auto simp: outer_brace_span_def split: if_splits)
  next
    case None
    then have n: "\<not> (c = CHR ''{'' \<and> CHR ''}'' \<in> set cs)"
      using rmatch_brace[of "c # cs"] by (auto split: if_splits)
    show ?thesis
    proof (cases "c = CHR ''{''")
      case True
      with n have "CHR ''}'' \<notin> set cs" by simp
      then have "outer_brace_span cs = None" by (rule outer_brace_span_no_close)
      then show ?thesis using None Cons.IH True \<open>CHR ''}'' \<notin> set cs\<close>
        by (simp add: outer_brace_span_def)
    next
      case False
      then show ?thesis using None Cons.IH by (simp add: outer_brace_span_def)
    qed
  qed
qed

lemma fence_in_patterns:
  "fence_in pat_json_fence" "fence_in pat_fence" "\<not> fence_in pat_brace"
  by (simp_all add: pat_json_fence_def pat_fence_def pat_brace_def fence_def)

lemma attempt_group1:
  "fence_in p \<Longrightarrow>
   (case re_search p s of None \<Rightarrow> k
    | Some (g0, g1) \<Rightarrow>
        (case loads (if fence_in p then g1 else g0) of
           Inr v \<Rightarrow> Inr v
         | Inl e \<Rightarrow> (if e = JSONDecodeError \<or> e = IndexError then k else Inl e))) =
   (case attempt [JSONDecodeError, IndexError] loads (map_option snd (re_search p s)) of
      Parsed v \<Rightarrow> Inr v | Failed \<Rightarrow> k | Raised e \<Rightarrow> Inl e)"
  by (auto simp: attempt_def split: option.splits sum.splits)

lemma attempt_group0:
  "\<not> fence_in p \<Longrightarrow>
   (case re_search p s of None \<Rightarrow> k
    | Some (g0, g1) \<Rightarrow>
        (case loads (if fence_in p then g1 else g0) of
           Inr v \<Rightarrow> Inr v
         | Inl e \<Rightarrow> (if e = JSONDecodeError \<or> e = IndexError then k else Inl e))) =
   (case attempt [JSONDecodeError, IndexError] loads (map_option fst (re_search p s)) of
      Parsed v \<Rightarrow> Inr v | Failed \<Rightarrow> k | Raised e \<Rightarrow> Inl e)"
  by (auto simp: attempt_def split: option.splits sum.splits)

lemma attempt_whole:
  "(case loads s of Inr v \<Rightarrow> Inr v
    | Inl e \<Rightarrow> (if e = JSONDecodeError then k else Inl e)) =
   (case attempt [JSONDecodeError] loads (Some s) of
      Parsed v \<Rightarrow> Inr v | Failed \<Rightarrow> k | Raised e \<Rightarrow> Inl e)"
  by (auto simp: attempt_def split: sum.splits)

lemma extract_json_refines: "extract_json loads s = repair_spec loads s"
proof -
  have "extract_json loads s =
      (case attempt [JSONDecodeError] loads (Some s) of
         Parsed v \<Rightarrow> Inr v | Raised e \<Rightarrow> Inl e | Failed \<Rightarrow>
       (case attempt [JSONDecodeError, IndexError] loads (fenced_block ''json'' s) of
          Parsed v \<Rightarrow> Inr v | Raised e \<Rightarrow> Inl e | Failed \<Rightarrow>
        (case attempt [JSONDecodeError, IndexError] loads (fenced_block [] s) of
           Parsed v \<Rightarrow> Inr v | Raised e \<Rightarrow> Inl e | Failed \<Rightarrow>
         (case attempt [JSONDecodeError, IndexError] loads (outer_brace_span s) of
            Parsed v \<Rightarrow> Inr v | Raised e \<Rightarrow> Inl e | Failed \<Rightarrow> Inr (JObj [])))))"
    unfolding extract_json_def json_patterns_def try_patterns.simps
      attempt_group1[OF fence_in_patterns(1)] attempt_group1[OF fence_in_patterns(2)]
      attempt_group0[OF fence_in_patterns(3)] attempt_whole
      search_json_fence search_fence search_brace ..
  then show ?thesis
    by (simp add: repair_spec_def repair_attempts_def split: outcome.splits)
qed

subsection \<open>The order of the attempts\<close>








lemma attempt_not_raised:
  assumes "\<forall>t e. loads t = Inl e \<longrightarrow> e = JSONDecodeError"
  shows "attempt (JSONDecodeError # caught) loads span \<noteq> Raised e"
  using assms by (auto simp: attempt_def split: option.splits sum.splits)

lemma first_outcome_not_raised:
  "(\<forall>a\<in>set as. a \<noteq> Raised e) \<Longrightarrow> first_outcome as \<noteq> Raised e"
  by (induction as rule: first_outcome.induct) auto

lemma extract_json_returns:
  assumes "\<forall>t e. loads t = Inl e \<longrightarrow> e = JSONDecodeError"
  shows "\<not> isl (extract_json loads s)"
proof -
  have "first_outcome (repair_attempts loads s) \<noteq> Raised e" for e
    by (rule first_outcome_not_raised)
       (simp add: repair_attempts_def attempt_not_raised[OF assms])
  then show ?thesis
    by (simp add: extract_json_refines repair_spec_def split: outcome.splits)
qed



section \<open>Properties of the merge\<close>

lemma map_of_py_update:
  "distinct (map fst e) \<Longrightarrow> map_of (py_update d e) = map_of d ++ map_of e"
  unfolding py_update_def
proof (induction e arbitrary: d)
  case Nil
  then show ?case by simp
next
  case (Cons p e)
  obtain k v where p: "p = (k, v)" by (cases p)
  from Cons.prems p have k: "k \<notin> fst ` set e" and d: "distinct (map fst e)" by auto
  have "map_of e k = None" using k by (simp add: map_of_eq_None_iff)
  have "map_of (fold (\<lambda>(k, v). AList.update k v) e (AList.update k v d)) x =
        (map_of d ++ map_of ((k, v) # e)) x" for x
    using Cons.IH[OF d, of "AList.update k v d"] \<open>map_of e k = None\<close>
    by (auto simp: map_add_def update_conv split: option.splits)
  then show ?case using p by (simp add: fun_eq_iff map_add_def)
qed

lemma distinct_py_update:
  "distinct (map fst d) \<Longrightarrow> distinct (map fst (py_update d e))"
  unfolding py_update_def
  by (induction e arbitrary: d) (auto simp: distinct_update)

lemma merge_content_dicts:
  "merge_content acc (map JObj ds) = Inr (foldl py_update acc ds)"
  by (induction ds arbitrary: acc) auto

lemma map_of_foldl_py_update:
  "\<forall>d\<in>set ds. distinct (map fst d) \<Longrightarrow>
   map_of (foldl py_update acc ds) = foldl (++) (map_of acc) (map map_of ds)"
  by (induction ds arbitrary: acc) (auto simp: map_of_py_update)

lemma foldl_map_add_last:
  "i < length ms \<Longrightarrow> (ms ! i) k = Some v \<Longrightarrow>
   (\<forall>j. i < j \<and> j < length ms \<longrightarrow> (ms ! j) k = None) \<Longrightarrow>
   foldl (++) m0 ms k = Some v"
proof (induction ms rule: rev_induct)
  case Nil
  then show ?case by simp
next
  case (snoc m ms)
  show ?case
  proof (cases "i = length ms")
    case True
    with snoc.prems(2) have "m k = Some v" by simp
    then show ?thesis by (simp add: map_add_def)
  next
    case False
    with snoc.prems(1) have lt: "i < length ms" by simp
    have mk: "m k = None"
      using snoc.prems(3)[rule_format, of "length ms"] lt by simp
    have at: "(ms ! i) k = Some v"
      using snoc.prems(2) lt by (simp add: nth_append)
    have later: "\<forall>j. i < j \<and> j < length ms \<longrightarrow> (ms ! j) k = None"
    proof (intro allI impI)
      fix j assume j: "i < j \<and> j < length ms"
      then have "((ms @ [m]) ! j) k = None"
        using snoc.prems(3)[rule_format, of j] by simp
      with j show "(ms ! j) k = None" by (simp add: nth_append)
    qed
    from snoc.IH[OF lt at later] mk show ?thesis by (simp add: map_add_def)
  qed
qed

text \<open>
  C2 (amended). The merge gives the later stage precedence: a key that several stage
  records populate takes the value of the last of them, and a key keeps its value only
  when no later stage has it. If stage \<open>i\<close> maps \<open>k\<close> to \<open>v\<close> and no later stage has
  \<open>k\<close>, the merged content maps \<open>k\<close> to \<open>v\<close>.
\<close>

theorem merge_later_stage_wins:
  assumes "\<forall>d\<in>set ds. distinct (map fst d)"
    and "i < length ds" and "map_of (ds ! i) k = Some v"
    and "\<forall>j. i < j \<and> j < length ds \<longrightarrow> map_of (ds ! j) k = None"
  shows "\<exists>m. merge_content [] (map JObj ds) = Inr m \<and> map_of m k = Some v"
proof -
  have "foldl (++) (map_of []) (map map_of ds) k = Some v"
    by (rule foldl_map_add_last[where i = i]) (use assms in auto)
  then show ?thesis
    using assms(1) by (simp add: merge_content_dicts map_of_foldl_py_update)
qed

theorem merge_later_stage_wins_witness:
  "distinct (map fst [(''x'', JInt 1)]) \<and> distinct (map fst [(''x'', JInt 2), (''y'', JInt 3)])
   \<and> (\<exists>m. merge_content [] (map JObj [[(''x'', JInt 1)], [(''x'', JInt 2), (''y'', JInt 3)]]) = Inr m
        \<and> map_of m ''x'' = Some (JInt 2))"
  using merge_later_stage_wins[of "[[(''x'', JInt 1)], [(''x'', JInt 2), (''y'', JInt 3)]]" 1 "''x''" "JInt 2"]
  by (simp add: nth_Cons')

text \<open>
  C2 as stated fails on its own example: merging \<open>{"x": 1}\<close> and then
  \<open>{"x": 2, "y": 3}\<close> gives \<open>{"x": 2, "y": 3}\<close>, not \<open>{"x": 1, "y": 3}\<close>.
\<close>

theorem merge_overwrites_earlier_stage:
  "merge_content [] [JObj [(''x'', JInt 1)], JObj [(''x'', JInt 2), (''y'', JInt 3)]]
     = Inr [(''x'', JInt 2), (''y'', JInt 3)]
   \<and> merge_content [] [JObj [(''x'', JInt 1)], JObj [(''x'', JInt 2), (''y'', JInt 3)]]
     \<noteq> Inr [(''x'', JInt 1), (''y'', JInt 3)]"
  by (simp add: py_update_def)

section \<open>Properties of the vertical merge\<close>

lemma merge_vertically_rows:
  "m \<in> set (merge_vertically col s e) \<Longrightarrow> s \<le> vrow m \<and> vrow m < e"
  by (auto simp: merge_vertically_def split: if_splits)

lemma policy_loop_rows:
  "policy_loop rs i start_idx cur ms = (s', ms') \<Longrightarrow> start_idx < i \<Longrightarrow>
   \<forall>m\<in>set ms. vrow m < i \<Longrightarrow>
   (\<forall>m\<in>set ms'. vrow m < i + length rs) \<and> s' < i + length rs"
proof (induction rs arbitrary: i start_idx cur ms)
  case Nil
  then show ?case by simp
next
  case (Cons r rs)
  show ?case
  proof (cases "py_ne (policy r) cur")
    case True
    let ?ms = "ms @ merge_vertically 0 (start_idx + 1) i"
    from Cons.prems(1) True
    have run: "policy_loop rs (i + 1) i (policy r) ?ms = (s', ms')" by simp
    have "\<forall>m\<in>set ?ms. vrow m < i + 1"
      using Cons.prems(3) merge_vertically_rows[of _ 0 "start_idx + 1" i] by fastforce
    from Cons.IH[OF run _ this] show ?thesis by simp
  next
    case False
    with Cons.prems(1)
    have run: "policy_loop rs (i + 1) start_idx cur ms = (s', ms')" by simp
    have "\<forall>m\<in>set ms. vrow m < i + 1" using Cons.prems(3) by fastforce
    from Cons.IH[OF run _ this] Cons.prems(2) show ?thesis by simp
  qed
qed

text \<open>
  The policy merge never marks the last row of the table, whatever the rows: every
  span stops one row before the end of its run.
\<close>

lemma merge_policies_skips_last_row:
  assumes "merge_policies rows = Inr ms" and "m \<in> set ms"
  shows "vrow m < length rows"
proof (cases rows)
  case Nil
  with assms(1) show ?thesis by (simp add: merge_policies_def)
next
  case (Cons r0 rs)
  obtain s' ms' where run: "policy_loop rs 1 0 (policy r0) [] = (s', ms')"
    by (cases "policy_loop rs 1 0 (policy r0) []")
  from policy_loop_rows[OF run] have a: "\<forall>m\<in>set ms'. vrow m < 1 + length rs" by simp
  from assms(1) Cons run
  have "ms = ms' @ merge_vertically 0 (s' + 1) (length rows)"
    by (simp add: merge_policies_def)
  with assms(2) have "m \<in> set ms' \<or> m \<in> set (merge_vertically 0 (s' + 1) (length rows))"
    by simp
  then show ?thesis
    using a Cons merge_vertically_rows[of m 0 "s' + 1" "length rows"] by auto
qed

text \<open>
  C9. On the ledger \<open>[(A,1,_), (A,1,_), (A,2,_), (B,1,_)]\<close> the claim's policy span of
  rows 0 to 2 is table rows 1 to 3 (row 0 of the table is the header) and its category
  span of rows 0 to 1 is table rows 1 to 2. The code passes \<open>start_idx + 1\<close> and \<open>i\<close> to
  \<^verbatim>\<open>_merge_vertically\<close>, whose end is exclusive and counts table rows, so each span
  loses its last row: the policy span marks table rows 1 and 2 only, and the category
  span is a lone \<open>restart\<close> on table row 1. The same happens on the rows that the page
  makes from these four entries (nine rows with the totals), where the policy spans
  leave out both policy-total rows and the category spans every category-total row.
\<close>

theorem merge_spans_lose_last_row:
  "merge_policies ledger_rows = Inr [VMerge 0 1 Restart, VMerge 0 2 Continue]
   \<and> merge_categories ledger_rows = Inr [VMerge 1 1 Restart]
   \<and> merges_of (add_page_focalizacion sample_lib strict_docx ledger_content) =
       [VMerge 0 1 Restart, VMerge 0 2 Continue, VMerge 0 3 Continue, VMerge 0 4 Continue,
        VMerge 0 5 Continue, VMerge 0 7 Restart, VMerge 0 8 Continue,
        VMerge 1 1 Restart, VMerge 1 2 Continue, VMerge 1 4 Restart, VMerge 1 7 Restart]"
  by code_simp

section \<open>Properties of page 1\<close>

lemma dget_update: "dget (AList.update k v d) k' dflt = (if k' = k then v else dget d k' dflt)"
  by (simp add: dget_def update_conv')

lemma page1_content_fields:
  assumes "dget ai_content ''pagina_1_datos_basicos'' (JObj []) = JObj p"
  shows "\<exists>q. page1_content now data ai_content = Inr q
     \<and> dget q ''nombre'' (JStr []) = ai_or_form p ''nombre'' data ''nombre_proyecto'' (JStr [])
     \<and> dget q ''tipologia'' d1 = dget p ''tipologia'' d1
     \<and> dget q ''codigo_bpin'' (JStr []) = ai_or_form p ''codigo_bpin'' data ''bpin'' (JStr [])
     \<and> dget q ''es_proyecto_tipo'' d2 = dget p ''es_proyecto_tipo'' d2
     \<and> dget q ''fecha_creacion'' (JStr now)
         = ai_or_form p ''fecha_creacion'' data ''fecha_creacion'' (JStr now)
     \<and> dget q ''identificador'' (JStr [])
         = ai_or_form p ''identificador'' data ''identificador'' (JStr [])
     \<and> dget q ''formulador_ciudadano'' (JStr [])
         = ai_or_form p ''formulador_ciudadano'' data ''responsable'' (JStr [])
     \<and> dget q ''formulador_oficial'' (JStr [])
         = ai_or_form p ''formulador_oficial'' data ''responsable'' (JStr [])"
  using assms
  by (simp add: page1_content_def Let_def dget_update ai_or_form_def)

lemma add_page_1_fields:
  assumes "add_page_1_datos_basicos D has_letterhead now q = Inr els"
  shows "LabelField ''Nombre'' [Raw (dget q ''nombre'' (JStr []))] \<in> set els
     \<and> Table [[[Lit (''Tipolog'' @ [i_acute] @ ''a'')], [Lit (''C'' @ [o_acute] @ ''digo BPIN'')]],
              [[Raw (dget q ''tipologia'' (JStr ''A - PIIP - Bienes y Servicios''))],
               [Raw (dget q ''codigo_bpin'' (JStr []))]]] []
         \<in> set els
     \<and> Table [[[Lit ''Es Proyecto Tipo:''],
               [Raw (dget q ''es_proyecto_tipo'' (JStr ''No''))],
               [Lit (''Fecha creaci'' @ [o_acute] @ ''n:'')],
               [Raw (dget q ''fecha_creacion'' (JStr now))]]] []
         \<in> set els
     \<and> InlineField ''Identificador:'' [Raw (dget q ''identificador'' (JStr []))] \<in> set els
     \<and> InlineField ''Formulador Ciudadano:'' [Raw (dget q ''formulador_ciudadano'' (JStr []))]
         \<in> set els
     \<and> InlineField ''Formulador Oficial:'' [Raw (dget q ''formulador_oficial'' (JStr []))]
         \<in> set els"
  using assms unfolding add_page_1_datos_basicos_def add_field_def add_inline_field_def
  by (auto elim!: ebindE dest!: add_run_Inr)

lemma printable_strings_update:
  "printable_strings d \<Longrightarrow> is_str v \<Longrightarrow> plain_value v \<Longrightarrow>
   printable_strings (AList.update k v d)"
  unfolding printable_strings_def by (induction d) auto

lemma printable_strings_dget:
  "printable_strings d \<Longrightarrow> is_str dflt \<Longrightarrow> plain_value dflt \<Longrightarrow>
   is_str (dget d k dflt) \<and> plain_value (dget d k dflt)"
  by (auto simp: printable_strings_def dget_def list_all_iff split: option.splits
      dest!: map_of_SomeD)

lemma plain_raw: "is_str v \<and> plain_value v \<Longrightarrow> plain [Raw v]"
  by (simp add: plain_def)

lemma ai_or_form_printable:
  assumes "printable_strings p" and "printable_strings data"
    and "is_str fallback" and "plain_value fallback"
  shows "is_str (ai_or_form p k data k' fallback) \<and> plain_value (ai_or_form p k data k' fallback)"
proof -
  have a: "truthy (dget p k JNull) \<Longrightarrow> is_str (dget p k JNull) \<and> plain_value (dget p k JNull)"
    using assms(1)
    by (auto simp: printable_strings_def dget_def list_all_iff split: option.splits
        dest!: map_of_SomeD)
  have b: "truthy (dget data k' JNull) \<Longrightarrow>
           is_str (dget data k' JNull) \<and> plain_value (dget data k' JNull)"
    using assms(2)
    by (auto simp: printable_strings_def dget_def list_all_iff split: option.splits
        dest!: map_of_SomeD)
  show ?thesis using a b assms(3,4) by (auto simp: ai_or_form_def py_or_def)
qed

lemma page1_content_printable:
  assumes "dget ai_content ''pagina_1_datos_basicos'' (JObj []) = JObj p"
    and "printable_strings p" and "printable_strings data" and "list_all printable now"
  shows "\<exists>q. page1_content now data ai_content = Inr q \<and> printable_strings q"
proof -
  have e: "is_str (JStr [])" "plain_value (JStr [])" "is_str (JStr now)" "plain_value (JStr now)"
    using assms(4) by simp_all
  have np: "is_str (py_or (dget data ''nombre_proyecto'' JNull) (JStr []))
            \<and> plain_value (py_or (dget data ''nombre_proyecto'' JNull) (JStr []))"
    using assms(3)
    by (auto simp: py_or_def printable_strings_def dget_def list_all_iff split: option.splits
        dest!: map_of_SomeD)
  have sec: "truthy (dget data ''sector'' JNull) \<Longrightarrow>
             is_str (dget data ''sector'' JNull) \<and> plain_value (dget data ''sector'' JNull)"
    using assms(3)
    by (auto simp: printable_strings_def dget_def list_all_iff split: option.splits
        dest!: map_of_SomeD)
  note u = printable_strings_update
  note a = ai_or_form_printable[OF _ assms(3)]
  show ?thesis
    using assms(1)
    by (auto simp: page1_content_def Let_def
        intro!: u a[THEN conjunct1] a[THEN conjunct2] np[THEN conjunct1] np[THEN conjunct2]
          sec[THEN conjunct1] sec[THEN conjunct2] assms(2) e)
qed

lemma add_page_1_printable:
  assumes "printable_strings q" and "list_all printable now"
  shows "\<not> isl (add_page_1_datos_basicos D has_letterhead now q)"
proof -
  have d: "plain [Raw (dget q k (JStr s))]" if "list_all printable s" for k s
    using printable_strings_dget[OF assms(1), of "JStr s" k] that by (simp add: plain_def)
  have e: "list_all printable []" "list_all printable ''A - PIIP - Bienes y Servicios''"
    "list_all printable ''No''"
    by (simp_all add: printable_def)
  have o: "plain [Raw (py_or (dget q ''nombre_proyecto'' (JStr [])) (dget q ''nombre'' (JStr [])))]"
    using d[OF e(1), of "''nombre_proyecto''"] d[OF e(1), of "''nombre''"]
    by (simp add: py_or_def)
  note p = d[OF e(1)] d[OF e(2)] d[OF e(3)] d[OF assms(2)] o
  show ?thesis
    unfolding add_page_1_datos_basicos_def add_field_def add_inline_field_def
      add_document_letterhead_def
    by (simp add: ebind_def add_run_plain[OF p(1)] add_run_plain[OF p(2)] add_run_plain[OF p(3)]
        add_run_plain[OF p(4)] add_run_plain[OF p(5)])
qed

text \<open>
  C5 (amended). The page-1 fields Nombre, Codigo BPIN, Fecha de creacion, Identificador,
  Formulador Ciudadano and Formulador Oficial show the value of the generated page-1
  record when that value is truthy; the value of the user's form data is the fallback
  (then the empty string, or the current time for the date). Whenever the generated
  page-1 record is a dict and page 1 is rendered, it holds these fields with these
  values; and it is rendered whenever the values of the record and of the form data are
  strings of printable characters (a value that is not a string goes to the library as
  it is, which may refuse it).
\<close>

theorem page1_shows_generated_fields_first:
  assumes "dget ai_content ''pagina_1_datos_basicos'' (JObj []) = JObj p"
  shows "(build_page_1 D has_letterhead now data ai_content = Inr els \<longrightarrow>
       LabelField ''Nombre'' [Raw (ai_or_form p ''nombre'' data ''nombre_proyecto'' (JStr []))]
         \<in> set els
     \<and> Table [[[Lit (''Tipolog'' @ [i_acute] @ ''a'')], [Lit (''C'' @ [o_acute] @ ''digo BPIN'')]],
              [[Raw (dget p ''tipologia'' (JStr ''A - PIIP - Bienes y Servicios''))],
               [Raw (ai_or_form p ''codigo_bpin'' data ''bpin'' (JStr []))]]] []
         \<in> set els
     \<and> Table [[[Lit ''Es Proyecto Tipo:''],
               [Raw (dget p ''es_proyecto_tipo'' (JStr ''No''))],
               [Lit (''Fecha creaci'' @ [o_acute] @ ''n:'')],
               [Raw (ai_or_form p ''fecha_creacion'' data ''fecha_creacion'' (JStr now))]]] []
         \<in> set els
     \<and> InlineField ''Identificador:''
          [Raw (ai_or_form p ''identificador'' data ''identificador'' (JStr []))] \<in> set els
     \<and> InlineField ''Formulador Ciudadano:''
          [Raw (ai_or_form p ''formulador_ciudadano'' data ''responsable'' (JStr []))] \<in> set els
     \<and> InlineField ''Formulador Oficial:''
          [Raw (ai_or_form p ''formulador_oficial'' data ''responsable'' (JStr []))] \<in> set els)
   \<and> (printable_strings p \<and> printable_strings data \<and> list_all printable now \<longrightarrow>
        \<not> isl (build_page_1 D has_letterhead now data ai_content))"
proof (intro conjI impI)
  assume b: "build_page_1 D has_letterhead now data ai_content = Inr els"
  from page1_content_fields[OF assms, of now data
      "JStr ''A - PIIP - Bienes y Servicios''" "JStr ''No''"]
  obtain q where q: "page1_content now data ai_content = Inr q"
    and f: "dget q ''nombre'' (JStr []) = ai_or_form p ''nombre'' data ''nombre_proyecto'' (JStr [])"
      "dget q ''tipologia'' (JStr ''A - PIIP - Bienes y Servicios'')
         = dget p ''tipologia'' (JStr ''A - PIIP - Bienes y Servicios'')"
      "dget q ''codigo_bpin'' (JStr []) = ai_or_form p ''codigo_bpin'' data ''bpin'' (JStr [])"
      "dget q ''es_proyecto_tipo'' (JStr ''No'') = dget p ''es_proyecto_tipo'' (JStr ''No'')"
      "dget q ''fecha_creacion'' (JStr now)
         = ai_or_form p ''fecha_creacion'' data ''fecha_creacion'' (JStr now)"
      "dget q ''identificador'' (JStr [])
         = ai_or_form p ''identificador'' data ''identificador'' (JStr [])"
      "dget q ''formulador_ciudadano'' (JStr [])
         = ai_or_form p ''formulador_ciudadano'' data ''responsable'' (JStr [])"
      "dget q ''formulador_oficial'' (JStr [])
         = ai_or_form p ''formulador_oficial'' data ''responsable'' (JStr [])"
    by blast
  from b q have "add_page_1_datos_basicos D has_letterhead now q = Inr els"
    by (simp add: build_page_1_def ebind_def)
  from add_page_1_fields[OF this, unfolded f]
  show "LabelField ''Nombre'' [Raw (ai_or_form p ''nombre'' data ''nombre_proyecto'' (JStr []))]
         \<in> set els"
    and "Table [[[Lit (''Tipolog'' @ [i_acute] @ ''a'')], [Lit (''C'' @ [o_acute] @ ''digo BPIN'')]],
              [[Raw (dget p ''tipologia'' (JStr ''A - PIIP - Bienes y Servicios''))],
               [Raw (ai_or_form p ''codigo_bpin'' data ''bpin'' (JStr []))]]] []
         \<in> set els"
    and "Table [[[Lit ''Es Proyecto Tipo:''],
               [Raw (dget p ''es_proyecto_tipo'' (JStr ''No''))],
               [Lit (''Fecha creaci'' @ [o_acute] @ ''n:'')],
               [Raw (ai_or_form p ''fecha_creacion'' data ''fecha_creacion'' (JStr now))]]] []
         \<in> set els"
    and "InlineField ''Identificador:''
          [Raw (ai_or_form p ''identificador'' data ''identificador'' (JStr []))] \<in> set els"
    and "InlineField ''Formulador Ciudadano:''
          [Raw (ai_or_form p ''formulador_ciudadano'' data ''responsable'' (JStr []))] \<in> set els"
    and "InlineField ''Formulador Oficial:''
          [Raw (ai_or_form p ''formulador_oficial'' data ''responsable'' (JStr []))] \<in> set els"
    by blast+
next
  assume a: "printable_strings p \<and> printable_strings data \<and> list_all printable now"
  from page1_content_printable[OF assms] a
  obtain q where q: "page1_content now data ai_content = Inr q" and s: "printable_strings q"
    by blast
  from add_page_1_printable[OF s, of now D has_letterhead] a q
  show "\<not> isl (build_page_1 D has_letterhead now data ai_content)"
    by (simp add: build_page_1_def ebind_def)
qed

theorem page1_shows_generated_fields_first_witness:
  "dget ai_content_bpin ''pagina_1_datos_basicos'' (JObj []) = JObj [(''codigo_bpin'', JStr ''999'')]
   \<and> printable_strings [(''codigo_bpin'', JStr ''999'')] \<and> printable_strings form_data
   \<and> list_all printable now_sample
   \<and> \<not> isl (build_page_1 strict_docx True now_sample form_data ai_content_bpin)
   \<and> Table [[[Lit (''Tipolog'' @ [i_acute] @ ''a'')], [Lit (''C'' @ [o_acute] @ ''digo BPIN'')]],
            [[Raw (JStr ''A - PIIP - Bienes y Servicios'')], [Raw (JStr ''999'')]]] []
       \<in> set (projr (build_page_1 strict_docx True now_sample form_data ai_content_bpin))
   \<and> InlineField ''Identificador:'' [Raw (JStr ''7'')]
       \<in> set (projr (build_page_1 strict_docx True now_sample form_data ai_content_bpin))"
proof -
  let ?b = "build_page_1 strict_docx True now_sample form_data ai_content_bpin"
  have h: "dget ai_content_bpin ''pagina_1_datos_basicos'' (JObj [])
             = JObj [(''codigo_bpin'', JStr ''999'')]"
    by (simp add: ai_content_bpin_def dget_def)
  have v: "ai_or_form [(''codigo_bpin'', JStr ''999'')] ''codigo_bpin'' form_data ''bpin'' (JStr [])
             = JStr ''999''"
      "ai_or_form [(''codigo_bpin'', JStr ''999'')] ''identificador'' form_data ''identificador''
         (JStr []) = JStr ''7''"
      "dget [(''codigo_bpin'', JStr ''999'')] ''tipologia'' (JStr ''A - PIIP - Bienes y Servicios'')
         = JStr ''A - PIIP - Bienes y Servicios''"
    by (simp_all add: ai_or_form_def py_or_def dget_def form_data_def)
  have s: "printable_strings [(''codigo_bpin'', JStr ''999'')]" "printable_strings form_data"
    "list_all printable now_sample"
    by (simp_all add: printable_strings_def form_data_def now_sample_def printable_def)
  note inst = page1_shows_generated_fields_first[OF h, of strict_docx True now_sample form_data
      "projr ?b"]
  from inst s have ok: "\<not> isl ?b" by blast
  then have r: "?b = Inr (projr ?b)" by (cases ?b) auto
  from inst r have "Table [[[Lit (''Tipolog'' @ [i_acute] @ ''a'')], [Lit (''C'' @ [o_acute] @ ''digo BPIN'')]],
            [[Raw (JStr ''A - PIIP - Bienes y Servicios'')], [Raw (JStr ''999'')]]] []
       \<in> set (projr ?b)"
    and "InlineField ''Identificador:'' [Raw (JStr ''7'')] \<in> set (projr ?b)"
    unfolding v by blast+
  with h s ok show ?thesis by blast
qed

text \<open>
  C5 as stated fails: with the same form data, whose BPIN code is 2024001, a generated
  page-1 record with the BPIN code 999 puts 999 on page 1, and one without a BPIN code
  puts 2024001 there.
\<close>

theorem page1_bpin_from_generated_content:
  "page1_content now_sample form_data ai_content_bpin =
     Inr [(''codigo_bpin'', JStr ''999''), (''nombre'', JStr ''Puente''),
          (''nombre_proyecto'', JStr ''Puente''), (''identificador'', JStr ''7''),
          (''formulador_ciudadano'', JStr ''Ana''), (''formulador_oficial'', JStr ''Ana''),
          (''fecha_creacion'', JStr now_sample)]
   \<and> page1_content now_sample form_data ai_content_plain =
     Inr [(''codigo_bpin'', JStr ''2024001''), (''nombre'', JStr ''Puente''),
          (''nombre_proyecto'', JStr ''Puente''), (''identificador'', JStr ''7''),
          (''formulador_ciudadano'', JStr ''Ana''), (''formulador_oficial'', JStr ''Ana''),
          (''fecha_creacion'', JStr now_sample)]
   \<and> map_sum id (\<lambda>els. els ! 5) (build_page_1 strict_docx True now_sample form_data ai_content_bpin)
       = Inr (Table [[[Lit (''Tipolog'' @ [i_acute] @ ''a'')], [Lit (''C'' @ [o_acute] @ ''digo BPIN'')]],
                     [[Raw (JStr ''A - PIIP - Bienes y Servicios'')], [Raw (JStr ''999'')]]] [])
   \<and> map_sum id (\<lambda>els. els ! 5) (build_page_1 strict_docx True now_sample form_data ai_content_plain)
       = Inr (Table [[[Lit (''Tipolog'' @ [i_acute] @ ''a'')], [Lit (''C'' @ [o_acute] @ ''digo BPIN'')]],
                     [[Raw (JStr ''A - PIIP - Bienes y Servicios'')], [Raw (JStr ''2024001'')]]] [])"
  by code_simp
section \<open>Properties of the indicator and regionalization pages\<close>

lemma add_page_indicador_one_page:
  assumes "add_page_indicador D x = Inr page"
  shows "indicator_pages_in page = 1"
proof (cases x)
  case (JObj data)
  with assms show ?thesis
    by (auto simp: Let_def indicator_pages_in_def split: json.splits elim!: ebindE)
qed (use assms in auto)

lemma indicador_pages_count:
  "indicador_pages D xs = Inr els \<Longrightarrow> indicator_pages_in els = length xs"
proof (induction xs arbitrary: els)
  case Nil
  then show ?case by (simp add: indicator_pages_in_def)
next
  case (Cons x xs)
  from Cons.prems obtain page pages where
    p: "add_page_indicador D x = Inr page" and ps: "indicador_pages D xs = Inr pages"
    and els: "els = page @ (if xs \<noteq> [] then [PageBreak] else []) @ pages"
    by (auto simp: ebind_Inr_iff)
  from add_page_indicador_one_page[OF p] Cons.IH[OF ps] els
  show ?case by (simp add: indicator_pages_in_def)
qed

lemma regionalizacion_block_one:
  assumes "regionalizacion_block D x = Inr block"
  shows "regionalizacion_blocks_in block = 1"
proof (cases x)
  case (JObj prod_data)
  with assms show ?thesis
    by (auto simp: Let_def regionalizacion_blocks_in_def headers_loc_def
        headers_cost_def split: json.splits elim!: ebindE)
qed (use assms in auto)

lemma regionalizacion_blocks_count:
  "emap (regionalizacion_block D) xs = Inr blocks \<Longrightarrow>
   regionalizacion_blocks_in (concat blocks) = length xs"
proof (induction xs arbitrary: blocks)
  case Nil
  then show ?case by (simp add: regionalizacion_blocks_in_def)
next
  case (Cons x xs)
  from Cons.prems[unfolded emap_Cons_Inr] obtain b bs where
    b: "regionalizacion_block D x = Inr b" and bs: "emap (regionalizacion_block D) xs = Inr bs"
    and e: "blocks = b # bs"
    by blast
  from regionalizacion_block_one[OF b] Cons.IH[OF bs] e
  show ?case by (simp add: regionalizacion_blocks_in_def)
qed





text \<open>
  C4 (amended). The pages follow the records, not the products: a non-empty list of
  indicator records gives one indicator page per record, and a list of regionalization
  records gives one block per record. The number of products of the value chain plays no
  part, and no placeholder is made for a product that has no record.
\<close>

theorem page_counts_follow_record_counts:
  "(dget content ''indicadores_producto'' (JArr []) = JArr inds \<and> inds \<noteq> []
      \<and> add_pages_indicadores D content = Inr els
      \<longrightarrow> indicator_pages_in els = length inds)
   \<and> (dget content ''regionalizacion_productos'' (JArr []) = JArr regs
      \<and> add_pages_regionalizacion D content = Inr els'
      \<longrightarrow> regionalizacion_blocks_in els' = length regs)"
proof (intro conjI impI)
  assume a: "dget content ''indicadores_producto'' (JArr []) = JArr inds \<and> inds \<noteq> []
      \<and> add_pages_indicadores D content = Inr els"
  then have "indicadores_of content = JArr inds" by (simp add: indicadores_of_def Let_def)
  with a have "indicador_pages D inds = Inr els"
    by (simp add: add_pages_indicadores_def ebind_def)
  then show "indicator_pages_in els = length inds" by (rule indicador_pages_count)
next
  assume a: "dget content ''regionalizacion_productos'' (JArr []) = JArr regs
      \<and> add_pages_regionalizacion D content = Inr els'"
  show "regionalizacion_blocks_in els' = length regs"
  proof (cases "regs = []")
    case True
    with a show ?thesis
      by (auto simp: add_pages_regionalizacion_def regionalizacion_blocks_in_def Let_def)
  next
    case False
    with a obtain blocks where b: "emap (regionalizacion_block D) regs = Inr blocks"
      and e: "els' = [Header programacion regionalizacion, SectionTitle regionalizacion] @ concat blocks"
      by (auto simp: add_pages_regionalizacion_def Let_def elim!: ebindE)
    from regionalizacion_blocks_count[OF b] e show ?thesis
      by (simp add: regionalizacion_blocks_in_def)
  qed
qed


lemma two_products_pages_ok: "\<not> isl (add_pages_indicadores strict_docx content_two_products)"
  by code_simp

theorem page_counts_follow_record_counts_witness:
  "dget content_two_products ''indicadores_producto'' (JArr []) =
     JArr [JObj [(''producto'', JObj [(''codigo'', JStr ''1.1''), (''nombre'', JStr ''Subsidios'')])]]
   \<and> add_pages_indicadores strict_docx content_two_products
       = Inr (projr (add_pages_indicadores strict_docx content_two_products))
   \<and> indicator_pages_in (projr (add_pages_indicadores strict_docx content_two_products)) = 1"
proof -
  have d: "dget content_two_products ''indicadores_producto'' (JArr []) =
     JArr [JObj [(''producto'', JObj [(''codigo'', JStr ''1.1''), (''nombre'', JStr ''Subsidios'')])]]"
    by (simp add: content_two_products_def dget_def)
  have r: "add_pages_indicadores strict_docx content_two_products
       = Inr (projr (add_pages_indicadores strict_docx content_two_products))"
    using two_products_pages_ok by (cases "add_pages_indicadores strict_docx content_two_products") auto
  let ?rec = "JObj [(''producto'', JObj [(''codigo'', JStr ''1.1''), (''nombre'', JStr ''Subsidios'')])]"
  let ?els = "projr (add_pages_indicadores strict_docx content_two_products)"
  have "dget content_two_products ''indicadores_producto'' (JArr []) = JArr [?rec]
        \<and> [?rec] \<noteq> [] \<and> add_pages_indicadores strict_docx content_two_products = Inr ?els"
    using d r by blast
  with page_counts_follow_record_counts[of content_two_products "[?rec]" strict_docx ?els]
  have "indicator_pages_in ?els = length [?rec]" by blast
  then have n: "indicator_pages_in ?els = 1" by simp
  show ?thesis by (intro conjI) (rule d, rule r, rule n)
qed

text \<open>
  C4 as stated fails: the value chain below has two products; the content has one
  indicator record and no regionalization record. One indicator page is written, for the
  record, and no regionalization block.
\<close>

theorem two_products_one_indicator_page:
  "cadena_data content_two_products = JObj [(''productos'', two_products)]
   \<and> py_len two_products = Inr 2
   \<and> map_sum id indicator_pages_in (add_pages_indicadores strict_docx content_two_products) = Inr 1
   \<and> map_sum id regionalizacion_blocks_in (add_pages_regionalizacion strict_docx content_two_products) = Inr 0"
  by code_simp

section \<open>Properties of the focalization rows\<close>

lemma items_loop_eq:
  "items_loop L pol cat items t rows =
     (foldl (fadd L) t (map (entry_val L) items), rows @ map (item_row pol cat) items)"
  by (induction items arbitrary: t rows) (auto simp: item_row_def)

lemma categories_loop_eq:
  "categories_loop L pol cats t rows =
     (foldl (fadd L) t (map (\<lambda>c. cat_total L (snd (snd c))) cats),
      rows @ concat (map (cat_rows L pol) cats))"
proof (induction cats arbitrary: t rows)
  case Nil
  then show ?case by simp
next
  case (Cons c cats)
  obtain kc cat items where c: "c = (kc, cat, items)" by (cases c)
  show ?case unfolding c
    by (simp add: items_loop_eq Cons.IH cat_rows_def cat_total_def)
qed

lemma policies_loop_eq:
  "policies_loop L g rows = rows @ concat (map (pol_rows L) g)"
proof (induction g arbitrary: rows)
  case Nil
  then show ?case by simp
next
  case (Cons p g)
  obtain kp pol cats where p: "p = (kp, pol, cats)" by (cases p)
  show ?case unfolding p
    by (simp add: categories_loop_eq Cons.IH pol_rows_def)
qed

lemma rows_of_spec_grouped: "rows_to_render L (spec_grouped ds) = ledger_spec L ds"
proof -
  have c: "cat_rows L pol (kc, cat_of (hd (filter (in_category kc) ds')), filter (in_category kc) ds')
        = category_block L pol ds' kc" for pol kc ds'
    by (simp add: cat_rows_def category_block_def Let_def)
  have p: "pol_rows L (kp, pol_of (hd (filter (in_policy kp) ds)), spec_cats (filter (in_policy kp) ds))
        = policy_block L ds kp" for kp
    by (simp add: pol_rows_def policy_block_def Let_def spec_cats_def comp_def c del: filter_filter)
  show ?thesis
    by (simp add: rows_to_render_def policies_loop_eq spec_grouped_def ledger_spec_def comp_def p)
qed


lemma first_seen_snoc:
  "first_seen (xs @ [x]) = (if x \<in> set xs then first_seen xs else first_seen xs @ [x])"
  by (simp add: first_seen_def)

lemma set_first_seen [simp]: "set (first_seen xs) = set xs"
  by (simp add: first_seen_def)

lemma distinct_first_seen [simp]: "distinct (first_seen xs)"
  by (simp add: first_seen_def)

lemma map_filter_snoc:
  "List.map_filter f (xs @ [x]) =
     List.map_filter f xs @ (case f x of None \<Rightarrow> [] | Some y \<Rightarrow> [y])"
  by (simp add: List.map_filter_def split: option.split)

lemma set_map_filter: "set (List.map_filter f xs) = {y. \<exists>x\<in>set xs. f x = Some y}"
  by (induction xs) (auto simp: List.map_filter_simps split: option.splits)

lemma category_keys_mem: "kc \<in> set (category_keys ds) \<longleftrightarrow> filter (in_category kc) ds \<noteq> []"
  by (auto simp: category_keys_def set_map_filter in_category_def filter_empty_conv)

lemma policy_keys_mem: "kp \<in> set (policy_keys ds) \<longleftrightarrow> filter (in_policy kp) ds \<noteq> []"
  by (auto simp: policy_keys_def set_map_filter in_policy_def filter_empty_conv)

lemma category_keys_snoc:
  "key_of (cat_of d) = Some kc \<Longrightarrow>
   category_keys (ds @ [d]) =
     (if kc \<in> set (category_keys ds) then category_keys ds else category_keys ds @ [kc])"
  by (simp add: category_keys_def map_filter_snoc first_seen_snoc)

lemma policy_keys_snoc:
  "key_of (pol_of d) = Some kp \<Longrightarrow>
   policy_keys (ds @ [d]) =
     (if kp \<in> set (policy_keys ds) then policy_keys ds else policy_keys ds @ [kp])"
  by (simp add: policy_keys_def map_filter_snoc first_seen_snoc)

lemma map_of_keyed:
  "map_of (map (\<lambda>x. (x, f x)) ks) k = (if k \<in> set ks then Some (f k) else None)"
  by (induction ks) auto

lemma update_keyed:
  "AList.update k v (map (\<lambda>x. (x, f x)) ks) =
     (if k \<in> set ks then map (\<lambda>x. (x, if x = k then v else f x)) ks
      else map (\<lambda>x. (x, f x)) ks @ [(k, v)])"
  if "distinct ks"
  using that by (induction ks) auto

lemma distinct_category_keys: "distinct (category_keys ds)"
  by (simp add: category_keys_def)

lemma distinct_policy_keys: "distinct (policy_keys ds)"
  by (simp add: policy_keys_def)

lemma spec_cats_keyed: "spec_cats ds = map (\<lambda>k. (k, cat_entry ds k)) (category_keys ds)"
  by (simp add: spec_cats_def cat_entry_def)

lemma spec_grouped_keyed: "spec_grouped ds = map (\<lambda>k. (k, pol_entry ds k)) (policy_keys ds)"
  by (simp add: spec_grouped_def pol_entry_def)

lemma cat_entry_snoc:
  assumes "key_of (cat_of d) = Some kc"
  shows "cat_entry (ds @ [d]) k =
     (if k = kc
      then (if filter (in_category kc) ds = [] then cat_of d
            else cat_of (hd (filter (in_category kc) ds)),
            filter (in_category kc) ds @ [d])
      else cat_entry ds k)"
  using assms by (simp add: cat_entry_def in_category_def)

lemma pol_entry_snoc:
  assumes "key_of (pol_of d) = Some kp"
  shows "pol_entry (ds @ [d]) k =
     (if k = kp
      then (if filter (in_policy kp) ds = [] then pol_of d
            else pol_of (hd (filter (in_policy kp) ds)),
            spec_cats (filter (in_policy kp) ds @ [d]))
      else pol_entry ds k)"
  using assms by (simp add: pol_entry_def in_policy_def)

lemma keyed_snoc:
  assumes "distinct ks"
    and "\<forall>k. k \<noteq> k0 \<longrightarrow> g k = f k"
    and "g k0 = v"
  shows "AList.update k0 v (map (\<lambda>k. (k, f k)) ks) =
         map (\<lambda>k. (k, g k)) (if k0 \<in> set ks then ks else ks @ [k0])"
proof (cases "k0 \<in> set ks")
  case True
  have "map (\<lambda>x. (x, if x = k0 then v else f x)) ks = map (\<lambda>k. (k, g k)) ks"
    using assms(2,3) by (intro map_cong refl) auto
  then show ?thesis using True assms(1) by (simp add: update_keyed)
next
  case False
  have "map (\<lambda>x. (x, f x)) ks = map (\<lambda>k. (k, g k)) ks"
    using assms(2) False by (intro map_cong refl) auto
  then show ?thesis using False assms(1,3) by (simp add: update_keyed)
qed

lemma spec_cats_snoc:
  assumes kc: "key_of (cat_of d) = Some kc"
  shows "AList.update kc
           (case (case map_of (spec_cats ds) kc of None \<Rightarrow> (cat_of d, []) | Some ci \<Rightarrow> ci) of
              (cobj, items) \<Rightarrow> (cobj, items @ [d]))
           (spec_cats ds) = spec_cats (ds @ [d])"
proof -
  let ?v = "(if filter (in_category kc) ds = [] then cat_of d
             else cat_of (hd (filter (in_category kc) ds)),
             filter (in_category kc) ds @ [d])"
  have lookup: "(case (case map_of (spec_cats ds) kc of None \<Rightarrow> (cat_of d, []) | Some ci \<Rightarrow> ci) of
              (cobj, items) \<Rightarrow> (cobj, items @ [d])) = ?v"
    by (simp add: spec_cats_keyed map_of_keyed category_keys_mem cat_entry_def)
  have "AList.update kc ?v (map (\<lambda>k. (k, cat_entry ds k)) (category_keys ds)) =
        map (\<lambda>k. (k, cat_entry (ds @ [d]) k))
          (if kc \<in> set (category_keys ds) then category_keys ds else category_keys ds @ [kc])"
    by (rule keyed_snoc[OF distinct_category_keys]) (simp_all add: cat_entry_snoc[OF kc])
  then have "AList.update kc ?v (spec_cats ds) = spec_cats (ds @ [d])"
    by (simp only: spec_cats_keyed category_keys_snoc[OF kc])
  then show ?thesis by (simp only: lookup)
qed

lemma group_item_unfold:
  assumes "key_of (pol_of d) = Some kp" and "key_of (cat_of d) = Some kc"
  shows "group_item g (JObj d) =
     Inr (AList.update kp
            (case (case map_of g kp of None \<Rightarrow> (pol_of d, []) | Some pc \<Rightarrow> pc) of
               (pobj, cats) \<Rightarrow>
                 (pobj, AList.update kc
                          (case (case map_of cats kc of None \<Rightarrow> (cat_of d, []) | Some ci \<Rightarrow> ci) of
                             (cobj, items) \<Rightarrow> (cobj, items @ [d]))
                          cats))
            g)"
  using assms by (simp add: pol_of_def cat_of_def Let_def split: prod.splits option.splits)

lemma spec_cats_Nil [simp]: "spec_cats [] = []"
  by (simp add: spec_cats_def category_keys_def first_seen_def List.map_filter_simps)

lemma group_item_spec:
  assumes "hashable_entry d"
  shows "group_item (spec_grouped ds) (JObj d) = Inr (spec_grouped (ds @ [d]))"
proof -
  from assms obtain kp kc where kp: "key_of (pol_of d) = Some kp" and kc: "key_of (cat_of d) = Some kc"
    by (auto simp: hashable_entry_def)
  let ?dsp = "filter (in_policy kp) ds"
  let ?pobj = "if ?dsp = [] then pol_of d else pol_of (hd ?dsp)"
  have lookup: "(case map_of (spec_grouped ds) kp of None \<Rightarrow> (pol_of d, []) | Some pc \<Rightarrow> pc)
      = (?pobj, spec_cats ?dsp)"
    by (simp add: spec_grouped_keyed map_of_keyed policy_keys_mem pol_entry_def)
  have step: "group_item (spec_grouped ds) (JObj d) =
      Inr (AList.update kp (?pobj, spec_cats (?dsp @ [d])) (spec_grouped ds))"
    unfolding group_item_unfold[OF kp kc] lookup
    by (simp only: prod.case spec_cats_snoc[OF kc])
  have "AList.update kp (?pobj, spec_cats (?dsp @ [d])) (map (\<lambda>k. (k, pol_entry ds k)) (policy_keys ds)) =
        map (\<lambda>k. (k, pol_entry (ds @ [d]) k))
          (if kp \<in> set (policy_keys ds) then policy_keys ds else policy_keys ds @ [kp])"
    by (rule keyed_snoc[OF distinct_policy_keys]) (simp_all add: pol_entry_snoc[OF kp])
  then have "AList.update kp (?pobj, spec_cats (?dsp @ [d])) (spec_grouped ds) = spec_grouped (ds @ [d])"
    by (simp only: spec_grouped_keyed policy_keys_snoc[OF kp])
  then show ?thesis by (simp only: step)
qed

lemma group_all_spec:
  "\<forall>d\<in>set ds. hashable_entry d \<Longrightarrow>
   group_all (spec_grouped pre) (map JObj ds) = Inr (spec_grouped (pre @ ds))"
proof (induction ds arbitrary: pre)
  case Nil
  then show ?case by simp
next
  case (Cons d ds)
  then show ?case using group_item_spec[of d pre] by simp
qed

lemma spec_grouped_Nil: "spec_grouped [] = []"
  by (simp add: spec_grouped_def policy_keys_def first_seen_def List.map_filter_simps)

lemma rows_refine:
  assumes "\<forall>d\<in>set ds. hashable_entry d"
  shows "group_all [] (map JObj ds) = Inr (spec_grouped ds)"
  using group_all_spec[OF assms, of "[]"] by (simp add: spec_grouped_Nil)

text \<open>
  C8 (amended). The rows are the entries grouped: the policies in the order of their
  first appearance, within a policy the categories in the order of their first
  appearance, within a category the entries in their input order. So the entries keep
  their input order exactly when the entries of each group are adjacent in the input.
  The row of a category total comes right after the last entry of its policy and
  category, and the row of a policy total right after the total of the last category of
  its policy: the rows are those of \<open>ledger_spec\<close>.
\<close>

theorem focal_rows_group_in_first_seen_order:
  assumes "\<forall>d\<in>set ds. hashable_entry d"
  shows "focal_rows L (map JObj ds) = Inr (ledger_spec L ds)"
  using rows_refine[OF assms] by (simp add: focal_rows_def rows_of_spec_grouped)

theorem focal_rows_group_in_first_seen_order_witness:
  "focal_rows sample_lib (map JObj interleaved_entries) =
     Inr [Row Item (JStr ''A'') (JStr ''x'') (JStr ''s1'') (JStr ''0''),
          Row Item (JStr ''A'') (JStr ''x'') (JStr ''s3'') (JStr ''0''),
          Row TotalCat (JStr ''A'') (JStr ''x'') (JStr total_categoria) (JStr ''$0,00''),
          Row TotalPol (JStr ''A'') (JStr ''TOTAL POLITICA TRANSVERSAL'') (JStr []) (JStr ''$0,00''),
          Row Item (JStr ''B'') (JStr ''y'') (JStr ''s2'') (JStr ''0''),
          Row TotalCat (JStr ''B'') (JStr ''y'') (JStr total_categoria) (JStr ''$0,00''),
          Row TotalPol (JStr ''B'') (JStr ''TOTAL POLITICA TRANSVERSAL'') (JStr []) (JStr ''$0,00'')]"
proof -
  have h: "\<forall>d\<in>set interleaved_entries. hashable_entry d"
    by (simp add: interleaved_entries_def hashable_entry_def pol_of_def cat_of_def dget_def)
  have e: "ledger_spec sample_lib interleaved_entries =
     [Row Item (JStr ''A'') (JStr ''x'') (JStr ''s1'') (JStr ''0''),
      Row Item (JStr ''A'') (JStr ''x'') (JStr ''s3'') (JStr ''0''),
      Row TotalCat (JStr ''A'') (JStr ''x'') (JStr total_categoria) (JStr ''$0,00''),
      Row TotalPol (JStr ''A'') (JStr ''TOTAL POLITICA TRANSVERSAL'') (JStr []) (JStr ''$0,00''),
      Row Item (JStr ''B'') (JStr ''y'') (JStr ''s2'') (JStr ''0''),
      Row TotalCat (JStr ''B'') (JStr ''y'') (JStr total_categoria) (JStr ''$0,00''),
      Row TotalPol (JStr ''B'') (JStr ''TOTAL POLITICA TRANSVERSAL'') (JStr []) (JStr ''$0,00'')]"
    by code_simp
  from focal_rows_group_in_first_seen_order[OF h, of sample_lib] e show ?thesis by simp
qed

text \<open>
  C8 as stated fails: of the three entries with the subcategories \<open>s1\<close>, \<open>s2\<close>, \<open>s3\<close>,
  the first and the third have the same policy and category and the second another
  policy. The rows show them in the order \<open>s1\<close>, \<open>s3\<close>, \<open>s2\<close>.
\<close>

theorem focal_rows_reorder_interleaved_entries:
  "map_sum id (\<lambda>rows. map subcategory (filter (\<lambda>r. rtype r = Item) rows))
     (focal_rows sample_lib (map JObj interleaved_entries))
     = Inr [JStr ''s1'', JStr ''s3'', JStr ''s2'']
   \<and> map (\<lambda>d. dget d ''subcategoria'' (JStr [])) interleaved_entries
     = [JStr ''s1'', JStr ''s2'', JStr ''s3'']"
  by code_simp

subsection \<open>The subtotals\<close>

text \<open>The grouping loop completes exactly on the entries that are dicts whose policy and
  category can be dict keys: these are the entries that reach the subtotal loops.\<close>

lemma group_item_entry:
  assumes "group_item g x = Inr g'"
  shows "\<exists>d. x = JObj d \<and> hashable_entry d"
proof (cases x)
  case (JObj d)
  with assms show ?thesis
    by (auto simp: hashable_entry_def pol_of_def cat_of_def Let_def
        split: option.splits prod.splits)
qed (use assms in auto)

lemma group_all_entries:
  "group_all g entries = Inr g' \<Longrightarrow>
   \<exists>ds. entries = map JObj ds \<and> (\<forall>e\<in>set ds. hashable_entry e)"
proof (induction entries arbitrary: g)
  case Nil
  then show ?case by simp
next
  case (Cons x entries)
  from Cons.prems obtain g1 where x: "group_item g x = Inr g1"
    and r: "group_all g1 entries = Inr g'"
    by (auto split: sum.splits)
  from group_item_entry[OF x] obtain d where d: "x = JObj d" "hashable_entry d" by blast
  from Cons.IH[OF r] obtain ds where "entries = map JObj ds" "\<forall>e\<in>set ds. hashable_entry e"
    by blast
  with d have "x # entries = map JObj (d # ds) \<and> (\<forall>e\<in>set (d # ds). hashable_entry e)"
    by simp
  then show ?case by (rule exI)
qed

lemma replace_chain:
  "replace CHR ''$'' [] (replace CHR '','' ''.'' (replace CHR ''.'' [] s)) =
   map (\<lambda>c. if c = CHR '','' then CHR ''.'' else c)
     (filter (\<lambda>c. c \<noteq> CHR ''.'' \<and> c \<noteq> CHR ''$'') s)"
  by (induction s) (auto simp: replace_def)

lemma entry_val_eq:
  "entry_val L d =
     (case float_of L
            (strip (map (\<lambda>c. if c = CHR '','' then CHR ''.'' else c)
                      (filter (\<lambda>c. c \<noteq> CHR ''.'' \<and> c \<noteq> CHR ''$'')
                         (py_str L (dget d ''valor'' (JStr ''0''))))))
      of Some x \<Rightarrow> x | None \<Rightarrow> fzero L)"
  by (simp add: entry_val_def clean_valor_def replace_chain)

lemma totals_of_category_block:
  "map rvalue (filter (\<lambda>r. rtype r \<noteq> Item) (category_block L pol ds kc)) =
   [fmt_total L (cat_total L (filter (in_category kc) ds))]"
  by (simp add: category_block_def Let_def item_row_def filter_map comp_def)

lemma totals_of_policy_block:
  "map rvalue (filter (\<lambda>r. rtype r \<noteq> Item) (policy_block L ds kp)) =
   map (\<lambda>kc. fmt_total L (cat_total L (filter (in_category kc) (filter (in_policy kp) ds))))
     (category_keys (filter (in_policy kp) ds)) @
   [fmt_total L
      (foldl (fadd L) (fzero L)
         (map (\<lambda>kc. cat_total L (filter (in_category kc) (filter (in_policy kp) ds)))
            (category_keys (filter (in_policy kp) ds))))]"
proof -
  have "concat (map (\<lambda>kc. map rvalue (filter (\<lambda>r. rtype r \<noteq> Item) (category_block L pol ds' kc))) ks)
        = map (\<lambda>kc. fmt_total L (cat_total L (filter (in_category kc) ds'))) ks" for pol ds' ks
    by (induction ks) (simp_all add: totals_of_category_block)
  then show ?thesis
    by (simp add: policy_block_def Let_def filter_concat map_concat comp_def del: filter_filter)
qed

lemma totals_of_ledger:
  "map rvalue (filter (\<lambda>r. rtype r \<noteq> Item) (ledger_spec L ds)) =
   concat (map (\<lambda>kp.
     map (\<lambda>kc. fmt_total L (cat_total L (filter (in_category kc) (filter (in_policy kp) ds))))
       (category_keys (filter (in_policy kp) ds)) @
     [fmt_total L
        (foldl (fadd L) (fzero L)
           (map (\<lambda>kc. cat_total L (filter (in_category kc) (filter (in_policy kp) ds)))
              (category_keys (filter (in_policy kp) ds))))])
     (policy_keys ds))"
  by (simp add: ledger_spec_def filter_concat map_concat comp_def totals_of_policy_block
      del: filter_filter)

text \<open>
  C10. For every list of entries that reaches the subtotal loops (dicts whose policy and
  category can be dict keys), computing the subtotals raises nothing: the rows are
  returned, and the values of their total rows are, policy by policy in the order of
  first appearance, the totals of the categories of the policy followed by the total of
  the policy. The number of an entry is what \<^verbatim>\<open>float()\<close> makes of its value string
  without its dots and dollar signs, with a dot for each comma and without the white
  space around it, and \<open>0.0\<close> when \<^verbatim>\<open>float()\<close> rejects that string. A category total
  is the sum of the numbers of its entries from \<open>0.0\<close>, and a policy total the sum of
  the totals of its categories from \<open>0.0\<close>: an entry whose value does not parse adds
  \<open>0.0\<close> to both.
\<close>

theorem subtotals_count_unparsable_values_as_zero:
  assumes "\<forall>e\<in>set ds. hashable_entry e"
  shows "let number = (\<lambda>d.
             case float_of L
                    (strip (map (\<lambda>c. if c = CHR '','' then CHR ''.'' else c)
                              (filter (\<lambda>c. c \<noteq> CHR ''.'' \<and> c \<noteq> CHR ''$'')
                                 (py_str L (dget d ''valor'' (JStr ''0''))))))
             of Some x \<Rightarrow> x | None \<Rightarrow> fzero L);
           category_total = (\<lambda>kp kc.
             foldl (fadd L) (fzero L)
               (map number (filter (in_category kc) (filter (in_policy kp) ds))));
           policy_total = (\<lambda>kp.
             foldl (fadd L) (fzero L)
               (map (category_total kp) (category_keys (filter (in_policy kp) ds))))
         in \<exists>rows. focal_rows L (map JObj ds) = Inr rows
              \<and> map rvalue (filter (\<lambda>r. rtype r \<noteq> Item) rows) =
                concat (map (\<lambda>kp.
                  map (\<lambda>kc. fmt_total L (category_total kp kc))
                    (category_keys (filter (in_policy kp) ds)) @
                  [fmt_total L (policy_total kp)])
                  (policy_keys ds))"
proof -
  have r: "focal_rows L (map JObj ds) = Inr (ledger_spec L ds)"
    using rows_refine[OF assms] by (simp add: focal_rows_def rows_of_spec_grouped)
  have n: "entry_val L = (\<lambda>d.
             case float_of L
                    (strip (map (\<lambda>c. if c = CHR '','' then CHR ''.'' else c)
                              (filter (\<lambda>c. c \<noteq> CHR ''.'' \<and> c \<noteq> CHR ''$'')
                                 (py_str L (dget d ''valor'' (JStr ''0''))))))
             of Some x \<Rightarrow> x | None \<Rightarrow> fzero L)"
    by (rule ext) (rule entry_val_eq)
  show ?thesis
    unfolding Let_def r n[symmetric]
    using totals_of_ledger[of L ds] by (simp add: cat_total_def)
qed

theorem subtotals_count_unparsable_values_as_zero_witness:
  "hashable_entry entry_parsed \<and> hashable_entry entry_malformed
   \<and> float_of sample_lib ''mil pesos'' = None
   \<and> (\<exists>rows. focal_rows sample_lib (map JObj [entry_parsed, entry_malformed]) = Inr rows
        \<and> map rvalue (filter (\<lambda>r. rtype r \<noteq> Item) rows) =
            [JStr ''$1.000,00'', JStr ''$1.000,00''])"
proof -
  have hp: "hashable_entry entry_parsed" and hm: "hashable_entry entry_malformed"
    by (simp_all add: hashable_entry_def entry_parsed_def entry_malformed_def pol_of_def
        cat_of_def dget_def)
  then have h: "\<forall>e\<in>set [entry_parsed, entry_malformed]. hashable_entry e" by simp
  have f: "float_of sample_lib ''mil pesos'' = None"
    by (simp add: sample_lib_def)
  have v: "(let number = (\<lambda>d.
             case float_of sample_lib
                    (strip (map (\<lambda>c. if c = CHR '','' then CHR ''.'' else c)
                              (filter (\<lambda>c. c \<noteq> CHR ''.'' \<and> c \<noteq> CHR ''$'')
                                 (py_str sample_lib (dget d ''valor'' (JStr ''0''))))))
             of Some x \<Rightarrow> x | None \<Rightarrow> fzero sample_lib);
           category_total = (\<lambda>kp kc.
             foldl (fadd sample_lib) (fzero sample_lib)
               (map number (filter (in_category kc)
                  (filter (in_policy kp) [entry_parsed, entry_malformed]))));
           policy_total = (\<lambda>kp.
             foldl (fadd sample_lib) (fzero sample_lib)
               (map (category_total kp)
                  (category_keys (filter (in_policy kp) [entry_parsed, entry_malformed]))))
         in concat (map (\<lambda>kp.
                  map (\<lambda>kc. fmt_total sample_lib (category_total kp kc))
                    (category_keys (filter (in_policy kp) [entry_parsed, entry_malformed])) @
                  [fmt_total sample_lib (policy_total kp)])
                  (policy_keys [entry_parsed, entry_malformed])))
        = [JStr ''$1.000,00'', JStr ''$1.000,00'']"
    by code_simp
  from subtotals_count_unparsable_values_as_zero[OF h, of sample_lib]
  have "\<exists>rows. focal_rows sample_lib (map JObj [entry_parsed, entry_malformed]) = Inr rows
        \<and> map rvalue (filter (\<lambda>r. rtype r \<noteq> Item) rows) =
            [JStr ''$1.000,00'', JStr ''$1.000,00'']"
    unfolding Let_def using v[unfolded Let_def] by simp
  with hp hm f show ?thesis by blast
qed
section \<open>Properties of the value chain page\<close>









lemma emap_Inr:
  "emap f xs = Inr ys \<Longrightarrow> list_all2 (\<lambda>x y. f x = Inr y) xs ys"
proof (induction xs arbitrary: ys)
  case Nil
  then show ?case by simp
next
  case (Cons x xs)
  then show ?case by (auto split: sum.splits)
qed














subsection \<open>A tree-shaped value chain of printable strings is rendered\<close>

lemma printable_plain: "printable_json v \<Longrightarrow> plain_value v"
  by (cases v) auto




lemma plain_Fmt: "printable_json v \<Longrightarrow> plain_frag (Fmt v)"
  by (simp add: printable_plain)











end
